theory Spec2Isabelle
  imports Complex_Main
begin

section \<open>Configuration\<close>

text \<open>
  The module-level constants of \<^verbatim>\<open>PiGameTest1.py\<close> (lines 8--22). Pixel sizes are
  Python ints; the two speeds are Python floats. A float is modelled by the real number it
  stands for. Where the movement code computes with floats, the rounding of every
  operation is written out (see the section on rounding); the camera and the magnitude of the
  displacement are stated in exact arithmetic.
\<close>

definition SCREEN_WIDTH :: int where "SCREEN_WIDTH = 640"
definition SCREEN_HEIGHT :: int where "SCREEN_HEIGHT = 480"
definition TILE_SIZE :: int where "TILE_SIZE = 32"
definition WALK_SPEED :: real where "WALK_SPEED = 2"
definition SPRINT_SPEED :: real where "SPRINT_SPEED = 4"
definition CAMERA_X :: int where "CAMERA_X = SCREEN_WIDTH div 2"
definition CAMERA_Y :: int where "CAMERA_Y = SCREEN_HEIGHT div 2"

lemmas config_defs =
  SCREEN_WIDTH_def SCREEN_HEIGHT_def TILE_SIZE_def WALK_SPEED_def SPRINT_SPEED_def
  CAMERA_X_def CAMERA_Y_def

section \<open>Tiles, errors, list indexing\<close>

text \<open>
  Modelled from the spec: the module \<^verbatim>\<open>map_data\<close> (the tile codes \<^verbatim>\<open>GRASS\<close>,
  \<^verbatim>\<open>WALL\<close>, \<^verbatim>\<open>STAIRS\<close>, \<^verbatim>\<open>DOOR\<close>, \<^verbatim>\<open>SPAWN\<close> and the table
  \<^verbatim>\<open>MAP_COLLECTION\<close>) is not among the sources. The spec gives the tile kinds as a
  closed enumeration of five distinct values (Floor, Wall, Stairs, Door, Spawn); they carry
  the names the source uses. \<^verbatim>\<open>MAP_COLLECTION\<close> is a parameter of \<open>Map_init\<close>.
\<close>

datatype tile = GRASS | WALL | STAIRS | DOOR | SPAWN

datatype error = KeyError | IndexError | FileNotFoundError

text \<open>
  List subscription \<^verbatim>\<open>xs[i]\<close> of Python: an index from \<open>0\<close> to \<open>len - 1\<close> reads from
  the front, one from \<open>- len\<close> to \<open>-1\<close> reads from the back, any other raises
  \<^verbatim>\<open>IndexError\<close>.
\<close>

definition py_index :: "'a list \<Rightarrow> int \<Rightarrow> error + 'a" where
  "py_index xs i =
     (if 0 \<le> i \<and> i < int (length xs) then Inr (xs ! nat i)
      else if - int (length xs) \<le> i \<and> i < 0 then Inr (xs ! nat (int (length xs) + i))
      else Inl IndexError)"

section \<open>Floating-point rounding\<close>

text \<open>
  A float operation of the source (\<^verbatim>\<open>+\<close>, \<^verbatim>\<open>-\<close>, \<^verbatim>\<open>*\<close>, \<^verbatim>\<open>/\<close>,
  \<^verbatim>\<open>**\<close>, \<^verbatim>\<open>math.sqrt\<close>) returns the exact result rounded to a float. The rounding is
  a parameter \<open>rnd\<close> of every function below that computes with floats: what is proved for
  every \<open>rnd\<close> holds for the machine's. \<open>round_double\<close> is the rounding of CPython's
  floats: IEEE 754 binary64, to the nearest float, ties to the even significand. A float
  other than zero is \<open>m * 2 ^ (e - 52)\<close> with \<open>e\<close> the exponent of the number, at least
  \<open>-1022\<close>, and \<open>m\<close> an integer. Results of magnitude \<open>2 ^ 1024\<close> and more, which are
  infinite for the machine, do not occur in the movement code and are not represented.
  The identity is exact arithmetic.
\<close>

definition round_half_even :: "real \<Rightarrow> int" where
  "round_half_even r =
     (let f = \<lfloor>r\<rfloor>; d = r - real_of_int f
      in if d < 1 / 2 then f else if 1 / 2 < d then f + 1 else if even f then f else f + 1)"

definition round_double :: "real \<Rightarrow> real" where
  "round_double x =
     (if x = 0 then 0
      else let e = max \<lfloor>log 2 \<bar>x\<bar>\<rfloor> (- 1022); q = 2 powi (e - 52)
           in real_of_int (round_half_even (x / q)) * q)"

section \<open>InputManager\<close>

text \<open>
  \<^verbatim>\<open>InputManager.action_state\<close> is a dict from action names to booleans;
  \<^verbatim>\<open>is_pressed\<close> is \<^verbatim>\<open>self.action_state.get(action, False)\<close> (line 90). The key map
  and the keyboard polling of \<^verbatim>\<open>InputManager.update\<close> belong to the platform.
\<close>

record InputManager =
  action_state :: "string \<rightharpoonup> bool"

definition is_pressed :: "InputManager \<Rightarrow> string \<Rightarrow> bool" where
  "is_pressed im action = (case action_state im action of None \<Rightarrow> False | Some b \<Rightarrow> b)"

section \<open>Map\<close>

text \<open>
  \<^verbatim>\<open>Map.__init__\<close> (lines 94--98): the dict lookup raises \<^verbatim>\<open>KeyError\<close> on an unknown
  name, and \<^verbatim>\<open>self.map_array[0]\<close> raises \<^verbatim>\<open>IndexError\<close> on a grid with no rows.
  Line 98 then calls \<^verbatim>\<open>load_map_tiles\<close>, which reads one image file per tile kind
  through pygame. \<^verbatim>\<open>load_sprite\<close> catches \<^verbatim>\<open>pygame.error\<close> only, so another
  exception of the loading (\<^verbatim>\<open>FileNotFoundError\<close> for a missing file) leaves the
  constructor. What the call does on the machine at hand is the parameter
  \<open>load_map_tiles\<close>: the table of sprites, or the exception. The table is rendering data
  and is not kept in the record.
\<close>

record Map =
  map_array :: "tile list list"
  height :: int
  width :: int

definition Map_init ::
  "(string \<rightharpoonup> tile list list) \<Rightarrow> error + 'sprites \<Rightarrow> string \<Rightarrow> error + Map" where
  "Map_init MAP_COLLECTION load_map_tiles map_name =
     (case MAP_COLLECTION map_name of
        None \<Rightarrow> Inl KeyError
      | Some arr \<Rightarrow>
          (case py_index arr 0 of
             Inl e \<Rightarrow> Inl e
           | Inr row0 \<Rightarrow>
               (case load_map_tiles of
                  Inl e \<Rightarrow> Inl e
                | Inr tile_sprites \<Rightarrow>
                    Inr \<lparr>map_array = arr, height = int (length arr),
                         width = int (length row0)\<rparr>)))"

section \<open>Spawn points\<close>

text \<open>
  \<^verbatim>\<open>get_random_spawn_point\<close> (lines 129--143). The two nested \<^verbatim>\<open>enumerate\<close> loops
  are \<open>scan_rows\<close> and \<open>scan_row\<close>, carrying the running index. The function prints a
  warning when there is no spawn tile: the printed lines are the second component of the
  result. \<^verbatim>\<open>random.choice(seq)\<close> is \<^verbatim>\<open>seq[self._randbelow(len(seq))]\<close>; the
  generator is the parameter \<open>randbelow\<close>, the index it yields for a sequence of the given
  length.
\<close>

fun scan_row :: "int \<Rightarrow> int \<Rightarrow> tile list \<Rightarrow> (int \<times> int) list" where
  "scan_row row_index col_index [] = []"
| "scan_row row_index col_index (tile_code # row) =
     (if tile_code = SPAWN then [(col_index * TILE_SIZE, row_index * TILE_SIZE)] else [])
     @ scan_row row_index (col_index + 1) row"

fun scan_rows :: "int \<Rightarrow> tile list list \<Rightarrow> (int \<times> int) list" where
  "scan_rows row_index [] = []"
| "scan_rows row_index (row # rows) = scan_row row_index 0 row @ scan_rows (row_index + 1) rows"

definition spawn_points :: "Map \<Rightarrow> (int \<times> int) list" where
  "spawn_points map_instance = scan_rows 0 (map_array map_instance)"

definition random_choice :: "(nat \<Rightarrow> nat) \<Rightarrow> 'a list \<Rightarrow> error + 'a" where
  "random_choice randbelow seq = py_index seq (int (randbelow (length seq)))"

definition no_spawn_warning :: string where
  "no_spawn_warning = ''Warning: No SPAWN tiles found. Starting at (0, 0) in world coordinates.''"

definition get_random_spawn_point ::
  "(nat \<Rightarrow> nat) \<Rightarrow> Map \<Rightarrow> (error + int \<times> int) \<times> string list" where
  "get_random_spawn_point randbelow map_instance =
     (let sp = spawn_points map_instance
      in if sp = [] then (Inr (0, 0), [no_spawn_warning])
         else (random_choice randbelow sp, []))"

section \<open>Player\<close>

text \<open>
  The fields of \<^verbatim>\<open>Player\<close> that the movement logic reads or writes. Positions and
  speeds are Python numbers (ints at spawn, floats once a displacement is added): reals.
  \<open>rect_width\<close> and \<open>rect_height\<close> are \<^verbatim>\<open>self.rect.width\<close> and
  \<^verbatim>\<open>self.rect.height\<close>: the rectangle of a sprite that \<^verbatim>\<open>load_sprite\<close> scales to
  \<^verbatim>\<open>TILE_SIZE\<close> by \<^verbatim>\<open>TILE_SIZE\<close> (or of the fallback surface of the same size).
  The sprites, the image and the screen position are rendering data.
\<close>

record Player =
  world_x :: real
  world_y :: real
  current_map :: Map
  walk_speed :: real
  sprint_speed :: real
  current_speed :: real
  current_direction :: string
  rect_width :: int
  rect_height :: int
  change_x :: real
  change_y :: real

definition Player_init :: "real \<Rightarrow> real \<Rightarrow> Map \<Rightarrow> Player" where
  "Player_init x y cur_map =
     \<lparr>world_x = x, world_y = y, current_map = cur_map,
      walk_speed = WALK_SPEED, sprint_speed = SPRINT_SPEED, current_speed = WALK_SPEED,
      current_direction = ''down'',
      rect_width = TILE_SIZE, rect_height = TILE_SIZE,
      change_x = 0, change_y = 0\<rparr>"

text \<open>
  \<^verbatim>\<open>Player._check_collision\<close> (lines 174--188). \<^verbatim>\<open>int(v // TILE_SIZE)\<close> is the floor
  of the quotient, which floor division by 32 yields without rounding. The far corner
  \<^verbatim>\<open>next_x + self.rect.width - 1\<close> is an addition and then a subtraction, each rounded.
  The loop over the four corners returns at the first wall; the lookup
  \<^verbatim>\<open>map_array[ty][tx]\<close> raises \<^verbatim>\<open>IndexError\<close> when row \<^verbatim>\<open>ty\<close> is shorter than the
  map's width.
\<close>

fun corner_scan :: "Map \<Rightarrow> (int \<times> int) list \<Rightarrow> error + bool" where
  "corner_scan m [] = Inr False"
| "corner_scan m ((tx, ty) # cs) =
     (if 0 \<le> ty \<and> ty < height m \<and> 0 \<le> tx \<and> tx < width m then
        (case py_index (map_array m) ty of
           Inl e \<Rightarrow> Inl e
         | Inr row \<Rightarrow>
             (case py_index row tx of
                Inl e \<Rightarrow> Inl e
              | Inr tile_code \<Rightarrow> if tile_code = WALL then Inr True else corner_scan m cs))
      else corner_scan m cs)"

definition check_collision ::
  "(real \<Rightarrow> real) \<Rightarrow> Player \<Rightarrow> real \<Rightarrow> real \<Rightarrow> error + bool" where
  "check_collision rnd self next_x next_y =
     (let tile_x1 = \<lfloor>next_x / real_of_int TILE_SIZE\<rfloor>;
          tile_y1 = \<lfloor>next_y / real_of_int TILE_SIZE\<rfloor>;
          tile_x2 = \<lfloor>rnd (rnd (next_x + real_of_int (rect_width self)) - 1)
                      / real_of_int TILE_SIZE\<rfloor>;
          tile_y2 = \<lfloor>rnd (rnd (next_y + real_of_int (rect_height self)) - 1)
                      / real_of_int TILE_SIZE\<rfloor>
      in corner_scan (current_map self)
           [(tile_x1, tile_y1), (tile_x1, tile_y2), (tile_x2, tile_y1), (tile_x2, tile_y2)])"

text \<open>
  \<^verbatim>\<open>Player.handle_input\<close> (lines 190--218): the speed, the reset of the movement
  vector, then four independent \<^verbatim>\<open>if\<close>s in the order left, right, up, down. The
  choice of the sprite image and the two messages printed for the action buttons change
  nothing the movement reads, and are left out.
\<close>

definition handle_input :: "InputManager \<Rightarrow> Player \<Rightarrow> Player" where
  "handle_input input_manager self =
     (let s0 = (if is_pressed input_manager ''sprint''
                then self\<lparr>current_speed := sprint_speed self\<rparr>
                else self\<lparr>current_speed := walk_speed self\<rparr>);
          s1 = s0\<lparr>change_x := 0, change_y := 0\<rparr>;
          s2 = (if is_pressed input_manager ''left''
                then s1\<lparr>change_x := - current_speed s1, current_direction := ''left''\<rparr>
                else s1);
          s3 = (if is_pressed input_manager ''right''
                then s2\<lparr>change_x := current_speed s2, current_direction := ''right''\<rparr>
                else s2);
          s4 = (if is_pressed input_manager ''up''
                then s3\<lparr>change_y := - current_speed s3, current_direction := ''up''\<rparr>
                else s3);
          s5 = (if is_pressed input_manager ''down''
                then s4\<lparr>change_y := current_speed s4, current_direction := ''down''\<rparr>
                else s4)
      in s5)"

text \<open>
  \<^verbatim>\<open>Player.update\<close> (lines 220--244) in three parts: the displacement (lines 222--232),
  the two collision tests that commit it axis by axis (lines 234--238, run only when
  \<^verbatim>\<open>mag_sq > 0\<close>), and the clamp to the map (lines 240--244).

  The displacement is written twice. \<open>displacement_fl\<close> rounds every operation, as the
  machine does, and is what \<open>update\<close> runs. \<open>displacement\<close> is the same code in exact
  arithmetic, \<open>displacement_fl\<close> with the identity for \<open>rnd\<close>: the reading under which the
  spec states the length of the displacement, up to floating-point tolerance. The additions
  \<^verbatim>\<open>self.world_x + dx\<close> and \<^verbatim>\<open>self.world_y + dy\<close> are rounded; \<^verbatim>\<open>max\<close> and
  \<^verbatim>\<open>min\<close> return one of their arguments. An exception of a collision test leaves
  \<open>update\<close> at once and nothing in the program catches it: the result is the exception.
\<close>

definition mag_sq_fl :: "(real \<Rightarrow> real) \<Rightarrow> Player \<Rightarrow> real" where
  "mag_sq_fl rnd self = rnd (rnd ((change_x self)\<^sup>2) + rnd ((change_y self)\<^sup>2))"

definition displacement_fl :: "(real \<Rightarrow> real) \<Rightarrow> Player \<Rightarrow> real \<times> real" where
  "displacement_fl rnd self =
     (let mag_sq = mag_sq_fl rnd self
      in if mag_sq > 0 then
           (if change_x self \<noteq> 0 \<and> change_y self \<noteq> 0 then
              (let scaling_factor = rnd (current_speed self / rnd (sqrt mag_sq))
               in (rnd (change_x self * scaling_factor), rnd (change_y self * scaling_factor)))
            else (change_x self, change_y self))
         else (0, 0))"

definition displacement :: "Player \<Rightarrow> real \<times> real" where
  "displacement self =
     (let mag_sq = (change_x self)\<^sup>2 + (change_y self)\<^sup>2
      in if mag_sq > 0 then
           (if change_x self \<noteq> 0 \<and> change_y self \<noteq> 0 then
              (let scaling_factor = current_speed self / sqrt mag_sq
               in (change_x self * scaling_factor, change_y self * scaling_factor))
            else (change_x self, change_y self))
         else (0, 0))"

definition resolve_collision :: "(real \<Rightarrow> real) \<Rightarrow> Player \<Rightarrow> error + Player" where
  "resolve_collision rnd self =
     (let mag_sq = mag_sq_fl rnd self;
          (dx, dy) = displacement_fl rnd self
      in if mag_sq > 0 then
           (case check_collision rnd self (rnd (world_x self + dx)) (world_y self) of
              Inl e \<Rightarrow> Inl e
            | Inr blocked_x \<Rightarrow>
                (let s1 = (if \<not> blocked_x then self\<lparr>world_x := rnd (world_x self + dx)\<rparr>
                           else self)
                 in case check_collision rnd s1 (world_x s1) (rnd (world_y s1 + dy)) of
                      Inl e \<Rightarrow> Inl e
                    | Inr blocked_y \<Rightarrow>
                        Inr (if \<not> blocked_y then s1\<lparr>world_y := rnd (world_y s1 + dy)\<rparr>
                             else s1)))
         else Inr self)"

definition clamp_to_map :: "Player \<Rightarrow> Player" where
  "clamp_to_map self =
     (let map_max_x = width (current_map self) * TILE_SIZE - rect_width self;
          map_max_y = height (current_map self) * TILE_SIZE - rect_height self
      in self\<lparr>world_x := max 0 (min (world_x self) (real_of_int map_max_x)),
              world_y := max 0 (min (world_y self) (real_of_int map_max_y))\<rparr>)"

definition update :: "(real \<Rightarrow> real) \<Rightarrow> Player \<Rightarrow> error + Player" where
  "update rnd self =
     (case resolve_collision rnd self of
        Inl e \<Rightarrow> Inl e
      | Inr s \<Rightarrow> Inr (clamp_to_map s))"

section \<open>Camera\<close>

text \<open>
  The camera block of \<^verbatim>\<open>main\<close> (lines 261--262 and 277--290). \<open>camera_target\<close> is the
  offset before clamping (lines 277--278); \<open>camera\<close> is the offset that is used for
  drawing. \<^verbatim>\<open>//\<close> on ints is floor division.
\<close>

definition camera_target :: "Player \<Rightarrow> real \<times> real" where
  "camera_target player =
     (real_of_int CAMERA_X - world_x player, real_of_int CAMERA_Y - world_y player)"

definition camera :: "Map \<Rightarrow> Player \<Rightarrow> real \<times> real" where
  "camera cur_map player =
     (let map_width_pixels = width cur_map * TILE_SIZE;
          map_height_pixels = height cur_map * TILE_SIZE;
          (camera_offset_x, camera_offset_y) = camera_target player;
          camera_offset_x =
            (if map_width_pixels < SCREEN_WIDTH
             then real_of_int ((SCREEN_WIDTH - map_width_pixels) div 2)
             else min 0 (max camera_offset_x (real_of_int (SCREEN_WIDTH - map_width_pixels))));
          camera_offset_y =
            (if map_height_pixels < SCREEN_HEIGHT
             then real_of_int ((SCREEN_HEIGHT - map_height_pixels) div 2)
             else min 0 (max camera_offset_y (real_of_int (SCREEN_HEIGHT - map_height_pixels))))
      in (camera_offset_x, camera_offset_y))"

section \<open>Well-formed maps and the collision test in the spec's words\<close>

text \<open>
  A map as \<open>Map_init\<close> builds it from a rectangular grid: \<open>height\<close> is the number of
  rows and every row has \<open>width\<close> tiles.
\<close>

definition rectangular :: "Map \<Rightarrow> bool" where
  "rectangular m =
     (height m = int (length (map_array m)) \<and>
      list_all (\<lambda>row. int (length row) = width m) (map_array m))"

text \<open>
  The collision test as the spec words it: a pixel coordinate becomes a tile coordinate by
  integer division by the tile size; a tile coordinate is in bounds when it names a cell of
  the grid; the box \<open>[x, x+w-1] \<times> [y, y+h-1]\<close> is blocked when one of its four corners is
  an in-bounds wall.
\<close>

definition tile_coord :: "real \<Rightarrow> int" where
  "tile_coord v = \<lfloor>v / real_of_int TILE_SIZE\<rfloor>"

definition in_bounds :: "tile list list \<Rightarrow> int \<Rightarrow> int \<Rightarrow> bool" where
  "in_bounds grid col row =
     (0 \<le> row \<and> row < int (length grid) \<and> 0 \<le> col \<and> col < int (length (grid ! nat row)))"

definition blocked_at :: "tile list list \<Rightarrow> real \<Rightarrow> real \<Rightarrow> int \<Rightarrow> int \<Rightarrow> bool" where
  "blocked_at grid x y w h =
     (\<exists>cx \<in> {x, x + real_of_int w - 1}. \<exists>cy \<in> {y, y + real_of_int h - 1}.
        in_bounds grid (tile_coord cx) (tile_coord cy) \<and>
        grid ! nat (tile_coord cy) ! nat (tile_coord cx) = WALL)"

text \<open>
  The same test on the corners that the program computes: the far corner of an axis is the
  coordinate plus the extent, rounded, minus one, rounded.
\<close>

definition far_corner :: "(real \<Rightarrow> real) \<Rightarrow> real \<Rightarrow> int \<Rightarrow> real" where
  "far_corner rnd v extent = rnd (rnd (v + real_of_int extent) - 1)"

definition blocked_at_fl ::
  "(real \<Rightarrow> real) \<Rightarrow> tile list list \<Rightarrow> real \<Rightarrow> real \<Rightarrow> int \<Rightarrow> int \<Rightarrow> bool" where
  "blocked_at_fl rnd grid x y w h =
     (\<exists>cx \<in> {x, far_corner rnd x w}. \<exists>cy \<in> {y, far_corner rnd y h}.
        in_bounds grid (tile_coord cx) (tile_coord cy) \<and>
        grid ! nat (tile_coord cy) ! nat (tile_coord cx) = WALL)"

definition wall_at :: "Map \<Rightarrow> int \<times> int \<Rightarrow> bool" where
  "wall_at m = (\<lambda>(tx, ty). in_bounds (map_array m) tx ty \<and> map_array m ! nat ty ! nat tx = WALL)"

text \<open>
  The camera target as the spec words it: the fixed focus point minus the player's centre,
  the centre being the world position plus half the bounding size.
\<close>

definition camera_target_spec :: "Player \<Rightarrow> real \<times> real" where
  "camera_target_spec player =
     (real_of_int CAMERA_X - (world_x player + real_of_int (rect_width player) / 2),
      real_of_int CAMERA_Y - (world_y player + real_of_int (rect_height player) / 2))"

text \<open>
  The facing as the spec words it: the four directions are looked at in the order left,
  right, up, down, and the last one that is active wins; with none active the previous
  facing stays.
\<close>

definition facing_in_order :: "InputManager \<Rightarrow> string \<Rightarrow> string" where
  "facing_in_order im previous =
     fold (\<lambda>action facing. if is_pressed im action then action else facing)
       [''left'', ''right'', ''up'', ''down''] previous"

text \<open>
  Grids as the spec speaks of them: one without spawn tiles; one with exactly one spawn
  tile, at a given column and row (no spawn tile in the rows above and below, nor left and
  right of it in its row); a rectangular one (every row as long as the first).
\<close>

definition no_spawn :: "tile list list \<Rightarrow> bool" where
  "no_spawn grid = list_all (\<lambda>row. SPAWN \<notin> set row) grid"

definition only_spawn_at :: "tile list list \<Rightarrow> nat \<Rightarrow> nat \<Rightarrow> bool" where
  "only_spawn_at grid col row =
     (row < length grid \<and> col < length (grid ! row) \<and> grid ! row ! col = SPAWN \<and>
      no_spawn (take row grid) \<and>
      SPAWN \<notin> set (take col (grid ! row)) \<and>
      SPAWN \<notin> set (drop (Suc col) (grid ! row)) \<and>
      no_spawn (drop (Suc row) grid))"

definition rectangular_grid :: "tile list list \<Rightarrow> bool" where
  "rectangular_grid grid =
     (case grid of [] \<Rightarrow> True | row0 # rows \<Rightarrow> list_all (\<lambda>row. length row = length row0) rows)"

text \<open>
  What \<^verbatim>\<open>random.choice\<close> relies on: the generator's draw for a sequence of length
  \<open>n > 0\<close> is an index below \<open>n\<close>.
\<close>

definition valid_randbelow :: "(nat \<Rightarrow> nat) \<Rightarrow> bool" where
  "valid_randbelow randbelow = (\<forall>n. 0 < n \<longrightarrow> randbelow n < n)"

section \<open>Sample data\<close>

text \<open>
  The scenario of the spec: a 5 by 5 grid, floor inside a border of walls, one spawn tile
  at column 1, row 1, and the player spawned there.
\<close>

definition grid5 :: "tile list list" where
  "grid5 = [[WALL, WALL, WALL, WALL, WALL],
            [WALL, SPAWN, GRASS, GRASS, WALL],
            [WALL, GRASS, GRASS, GRASS, WALL],
            [WALL, GRASS, GRASS, GRASS, WALL],
            [WALL, WALL, WALL, WALL, WALL]]"

definition map5 :: Map where
  "map5 = \<lparr>map_array = grid5, height = 5, width = 5\<rparr>"

definition player5 :: Player where
  "player5 = Player_init 32 32 map5"

text \<open>
  The input state that \<^verbatim>\<open>InputManager.update\<close> leaves when exactly the keys of the
  listed actions are down: every action of the dict is reset to \<^verbatim>\<open>False\<close>, and the
  listed ones are set to \<^verbatim>\<open>True\<close>. The dict has the seven keys of \<open>action_names\<close>.
\<close>

definition action_names :: "string list" where
  "action_names = [''up'', ''down'', ''left'', ''right'', ''sprint'', ''action_a'', ''action_y'']"

definition press :: "string list \<Rightarrow> InputManager" where
  "press actions =
     \<lparr>action_state = (\<lambda>a. if a \<in> set action_names then Some (a \<in> set actions) else None)\<rparr>"

text \<open>A map without walls, and a player one pixel from its left edge walking left.\<close>

definition grid_open :: "tile list list" where
  "grid_open = [[GRASS, GRASS, GRASS], [GRASS, SPAWN, GRASS]]"

definition map_open :: Map where
  "map_open = \<lparr>map_array = grid_open, height = 2, width = 3\<rparr>"

definition player_edge :: Player where
  "player_edge = handle_input (press [''left'']) (Player_init 1 0 map_open)"

text \<open>The spawned player of the scenario walking left and down: the wall is to its left.\<close>

definition player_slide :: Player where
  "player_slide = handle_input (press [''left'', ''down'']) player5"

text \<open>A map larger than the viewport: 30 by 20 tiles, 960 by 640 pixels.\<close>

definition map_big :: Map where
  "map_big = \<lparr>map_array = replicate 20 (replicate 30 GRASS), height = 20, width = 30\<rparr>"

text \<open>All four directions held at once.\<close>

definition all_held :: InputManager where
  "all_held = press [''left'', ''right'', ''up'', ''down'']"

text \<open>
  Grids for the spawn selector: one without a spawn tile, one whose only spawn tile is at
  column 2, row 3, one with two spawn tiles; and a grid whose rows differ in length.
\<close>

definition grid_bare :: "tile list list" where
  "grid_bare = [[GRASS, WALL], [WALL, GRASS]]"

definition grid_spawn23 :: "tile list list" where
  "grid_spawn23 = [[WALL, WALL, WALL, WALL],
                   [WALL, GRASS, GRASS, WALL],
                   [WALL, GRASS, DOOR, WALL],
                   [WALL, GRASS, SPAWN, WALL],
                   [WALL, WALL, WALL, WALL]]"

definition grid_two :: "tile list list" where
  "grid_two = [[SPAWN, GRASS, SPAWN]]"

definition map_bare :: Map where
  "map_bare = \<lparr>map_array = grid_bare, height = 2, width = 2\<rparr>"

definition map_spawn23 :: Map where
  "map_spawn23 = \<lparr>map_array = grid_spawn23, height = 5, width = 4\<rparr>"

definition map_two :: Map where
  "map_two = \<lparr>map_array = grid_two, height = 1, width = 3\<rparr>"

definition grid_ragged :: "tile list list" where
  "grid_ragged = [[GRASS, GRASS], [GRASS]]"

text \<open>
  A player flush against a wall on its left, at \<open>x = 64\<close>: the map has walls in columns 0
  and 1 and floor in columns 2 and 3. It walks right and down for one tick
  (\<open>player_forth\<close>, which \<open>update\<close> turns into \<open>player_moved\<close>), then left and up
  (\<open>player_back\<close>). The floats on its way:
  \<^item> \<open>sqrt8_fl\<close>, \<^verbatim>\<open>2.8284271247461903\<close>, is \<^verbatim>\<open>math.sqrt(8.0)\<close>;
  \<^item> \<open>scale_fl\<close>, \<^verbatim>\<open>0.7071067811865475\<close>, is the scaling factor \<^verbatim>\<open>2.0 / math.sqrt(8.0)\<close>;
  \<^item> \<open>diag_step\<close>, \<^verbatim>\<open>1.414213562373095\<close>, is the step along each axis;
  \<^item> \<open>x_forth\<close>, \<^verbatim>\<open>65.41421356237309\<close>, and \<open>y_forth\<close>, \<^verbatim>\<open>33.41421356237309\<close>, are
    \<^verbatim>\<open>64.0 + 1.414213562373095\<close> and \<^verbatim>\<open>32.0 + 1.414213562373095\<close>;
  \<^item> \<open>y_back\<close>, \<^verbatim>\<open>31.999999999999996\<close>, is
    \<^verbatim>\<open>33.41421356237309 - 1.414213562373095\<close>.
\<close>

definition grid_flush :: "tile list list" where
  "grid_flush = [[WALL, WALL, WALL, WALL, WALL],
                 [WALL, WALL, GRASS, GRASS, WALL],
                 [WALL, WALL, GRASS, GRASS, WALL],
                 [WALL, WALL, WALL, WALL, WALL]]"

definition map_flush :: Map where
  "map_flush = \<lparr>map_array = grid_flush, height = 4, width = 5\<rparr>"

definition sqrt8_fl :: real where
  "sqrt8_fl = 6369051672525773 / 2 ^ 51"

definition scale_fl :: real where
  "scale_fl = 1592262918131443 / 2 ^ 51"

definition diag_step :: real where
  "diag_step = 1592262918131443 / 2 ^ 50"

definition x_forth :: real where
  "x_forth = 4603116059753711 / 2 ^ 46"

definition y_forth :: real where
  "y_forth = 2351316246068463 / 2 ^ 46"

definition y_back :: real where
  "y_back = 9007199254740991 / 2 ^ 48"

definition player_forth :: Player where
  "player_forth = handle_input (press [''right'', ''down'']) (Player_init 64 32 map_flush)"

definition player_moved :: Player where
  "player_moved = player_forth\<lparr>world_x := x_forth, world_y := y_forth\<rparr>"

definition player_back :: Player where
  "player_back = handle_input (press [''left'', ''up'']) player_moved"

text \<open>
  A map whose second row is longer than its first, with a wall in the part that juts out;
  the map that \<open>Map_init\<close> builds from \<open>grid_ragged\<close>, whose second row is shorter
  than its first; and a one-row map with floor then wall.
\<close>

definition grid_jut :: "tile list list" where
  "grid_jut = [[GRASS], [GRASS, WALL]]"

definition map_jut :: Map where
  "map_jut = \<lparr>map_array = grid_jut, height = 2, width = 1\<rparr>"

definition map_ragged :: Map where
  "map_ragged = \<lparr>map_array = grid_ragged, height = 2, width = 2\<rparr>"

definition grid_strip :: "tile list list" where
  "grid_strip = [[GRASS, WALL]]"

definition map_strip :: Map where
  "map_strip = \<lparr>map_array = grid_strip, height = 1, width = 2\<rparr>"

section \<open>Rounding to a float\<close>

lemma round_half_even_of_int: "round_half_even (real_of_int k) = k"
  by (simp add: round_half_even_def)

lemma round_half_even_unique:
  assumes "real_of_int m - 1 / 2 < r" "r < real_of_int m + 1 / 2"
  shows "round_half_even r = m"
proof -
  have "\<lfloor>r\<rfloor> = m \<or> \<lfloor>r\<rfloor> = m - 1" using assms by linarith
  then show ?thesis
  proof
    assume f: "\<lfloor>r\<rfloor> = m"
    then have "r - real_of_int m < 1 / 2" using assms by linarith
    then show ?thesis by (simp add: round_half_even_def f)
  next
    assume f: "\<lfloor>r\<rfloor> = m - 1"
    then have "1 / 2 < r - real_of_int (m - 1)" using assms by simp
    then show ?thesis by (simp add: round_half_even_def f Let_def)
  qed
qed

lemma floor_log2_eq:
  assumes "2 powi e \<le> x" "x < 2 powi (e + 1)"
  shows "\<lfloor>log 2 x\<rfloor> = e"
proof -
  have p: "0 < x" using assms(1) by (smt (verit) zero_less_power_int)
  have "(2::real) powr real_of_int e = 2 powi e"
    using powr_real_of_int' [of 2 e] by simp
  moreover have "(2::real) powr (real_of_int e + 1) = 2 powi (e + 1)"
    using powr_real_of_int' [of 2 "e + 1"] by simp
  ultimately have "2 powr real_of_int e \<le> x \<and> x < 2 powr (real_of_int e + 1)"
    using assms by simp
  then show ?thesis using floor_log_eq_powr_iff [of x 2 e] p by simp
qed

lemma round_double_eval:
  assumes "2 powi e \<le> \<bar>x\<bar>" "\<bar>x\<bar> < 2 powi (e + 1)" "- 1022 \<le> e"
  shows "round_double x = real_of_int (round_half_even (x / 2 powi (e - 52))) * 2 powi (e - 52)"
proof -
  have "x \<noteq> 0" using assms(1) by (smt (verit) zero_less_power_int)
  moreover have "\<lfloor>log 2 \<bar>x\<bar>\<rfloor> = e" using assms(1,2) by (rule floor_log2_eq)
  ultimately show ?thesis using assms(3) by (simp add: round_double_def Let_def max_def)
qed

lemma round_double_int:
  assumes "\<bar>k\<bar> < 2 ^ 53"
  shows "round_double (real_of_int k) = real_of_int k"
proof (cases "k = 0")
  case True
  then show ?thesis by (simp add: round_double_def)
next
  case False
  then have "1 \<le> nat \<bar>k\<bar>" by simp
  from ex_power_ivl1 [OF order_refl this]
  obtain n where n: "2 ^ n \<le> nat \<bar>k\<bar>" "nat \<bar>k\<bar> < 2 ^ (n + 1)" by blast
  have "(2::nat) ^ n < 2 ^ 53"
  proof -
    have "int (2 ^ n) \<le> \<bar>k\<bar>" using n(1) by linarith
    then have "int (2 ^ n) < 2 ^ 53" using assms by linarith
    then show ?thesis by (metis of_nat_less_iff of_nat_numeral of_nat_power)
  qed
  then have n53: "n < 53" by (rule power_less_imp_less_exp [rotated]) simp
  have lo: "2 powi int n \<le> \<bar>real_of_int k\<bar>"
  proof -
    have "real (2 ^ n) \<le> real (nat \<bar>k\<bar>)" using n(1) by (simp only: of_nat_le_iff)
    then show ?thesis by simp
  qed
  have hi: "\<bar>real_of_int k\<bar> < 2 powi (int n + 1)"
  proof -
    have "real (nat \<bar>k\<bar>) < real (2 ^ (n + 1))" using n(2) by (simp only: of_nat_less_iff)
    moreover have "(2::real) powi (int n + 1) = 2 ^ (n + 1)"
      by (metis of_nat_1 of_nat_add power_int_of_nat)
    ultimately show ?thesis by simp
  qed
  define j where "j = 52 - n"
  have j: "52 = n + j" using n53 by (simp add: j_def)
  have q: "(2::real) powi (int n - 52) = 1 / 2 ^ j"
  proof -
    have "int n - 52 = - int j" using j by simp
    then have "(2::real) powi (int n - 52) = 2 powi (- int j)" by simp
    also have "\<dots> = inverse (2 ^ j)" by (simp only: power_int_minus power_int_of_nat)
    finally show ?thesis by (simp add: field_simps)
  qed
  have "real_of_int k / (2 powi (int n - 52)) = real_of_int (k * 2 ^ j)"
    by (simp add: q)
  then have "round_half_even (real_of_int k / (2 powi (int n - 52))) = k * 2 ^ j"
    by (simp only: round_half_even_of_int)
  then show ?thesis
    using round_double_eval [OF lo hi] by (simp add: q)
qed

lemma round_double_numeral [simp]:
  "numeral k < (2::int) ^ 53 \<Longrightarrow> round_double (numeral k) = numeral k"
  "numeral k < (2::int) ^ 53 \<Longrightarrow> round_double (- numeral k) = - numeral k"
  using round_double_int [of "numeral k"] round_double_int [of "- numeral k"] by simp_all

lemma round_double_0 [simp]: "round_double 0 = 0"
  by (simp add: round_double_def)

lemma round_double_1 [simp]: "round_double 1 = 1" "round_double (- 1) = - 1"
  using round_double_int [of 1] round_double_int [of "- 1"] by simp_all

section \<open>Indexing and rectangular maps\<close>

lemma py_index_in_range: "0 \<le> i \<Longrightarrow> i < int (length xs) \<Longrightarrow> py_index xs i = Inr (xs ! nat i)"
  by (simp add: py_index_def)

lemma rectangular_row:
  assumes "rectangular m" "0 \<le> ty" "ty < height m"
  shows "int (length (map_array m ! nat ty)) = width m"
proof -
  from assms have "nat ty < length (map_array m)" by (simp add: rectangular_def)
  moreover from assms have "\<forall>row \<in> set (map_array m). int (length row) = width m"
    by (simp add: rectangular_def list_all_iff)
  ultimately show ?thesis by simp
qed

lemma rectangular_in_bounds:
  assumes "rectangular m"
  shows "in_bounds (map_array m) tx ty \<longleftrightarrow> 0 \<le> ty \<and> ty < height m \<and> 0 \<le> tx \<and> tx < width m"
  using assms rectangular_row [OF assms, of ty]
  by (auto simp: in_bounds_def rectangular_def)

lemma rectangular_map5: "rectangular map5"
  by (simp add: rectangular_def map5_def grid5_def)

section \<open>The collision test\<close>

lemma corner_scan_rectangular:
  assumes "rectangular m"
  shows "corner_scan m cs = Inr (list_ex (wall_at m) cs)"
proof (induction cs)
  case Nil
  show ?case by simp
next
  case (Cons c cs)
  obtain tx ty where c: "c = (tx, ty)" by (cases c)
  show ?case
  proof (cases "0 \<le> ty \<and> ty < height m \<and> 0 \<le> tx \<and> tx < width m")
    case True
    then have r: "py_index (map_array m) ty = Inr (map_array m ! nat ty)"
      using assms by (simp add: py_index_in_range rectangular_def)
    have "int (length (map_array m ! nat ty)) = width m"
      using rectangular_row [OF assms] True by simp
    then have t: "py_index (map_array m ! nat ty) tx = Inr (map_array m ! nat ty ! nat tx)"
      using True by (simp add: py_index_in_range)
    have "in_bounds (map_array m) tx ty"
      using True rectangular_in_bounds [OF assms] by simp
    then show ?thesis
      using True Cons.IH by (simp add: c r t wall_at_def)
  next
    case False
    then have "\<not> in_bounds (map_array m) tx ty"
      using rectangular_in_bounds [OF assms] by simp
    moreover have "corner_scan m (c # cs) = corner_scan m cs"
      unfolding c using False by (simp del: de_Morgan_conj)
    ultimately show ?thesis
      using Cons.IH by (simp add: c wall_at_def)
  qed
qed

lemma check_collision_rectangular:
  assumes "rectangular (current_map self)"
  shows "check_collision rnd self x y =
           Inr (blocked_at_fl rnd (map_array (current_map self)) x y
                  (rect_width self) (rect_height self))"
  unfolding check_collision_def Let_def corner_scan_rectangular [OF assms]
  by (auto simp: wall_at_def blocked_at_fl_def far_corner_def tile_coord_def)

lemma check_collision_world [simp]:
  "check_collision rnd (self\<lparr>world_x := v\<rparr>) = check_collision rnd self"
  "check_collision rnd (self\<lparr>world_y := v\<rparr>) = check_collision rnd self"
  by (simp_all add: check_collision_def fun_eq_iff)

lemma round_double_below_33: "round_double (33 - 1 / 2 ^ 53) = 33"
  by (subst round_double_eval [of 5]) (simp_all add: round_half_even_def)

text \<open>
  C6, as stated: the collision test returns true iff one of the four corners of the box
  \<open>[x, x+w-1] \<times> [y, y+h-1]\<close>, divided by the tile size and rounded down, is in bounds of
  the grid and holds a wall. It fails three times over. On a map that \<open>Map_init\<close> builds from
  a grid whose second row is longer than its first, a wall in the part that juts out is in
  the grid, under a corner of the box, and the test answers false: the column is compared
  with the length of the first row. On a map built from a grid whose second row is shorter,
  the test raises \<^verbatim>\<open>IndexError\<close>. And on a rectangular map, at \<open>x = 1 - 2 ^ -53\<close> the
  far corner \<open>x + 32 - 1\<close> is rounded to \<open>32\<close>, a wall tile, and the test answers true,
  while the box ends before \<open>32\<close>.
\<close>

theorem check_collision_not_exact_box:
  "Map_init [''map1'' \<mapsto> grid_jut] (Inr ()) ''map1'' = Inr map_jut \<and>
   check_collision round_double (Player_init 0 0 map_jut) 32 32 = Inr False \<and>
   blocked_at grid_jut 32 32 32 32 \<and>
   Map_init [''map1'' \<mapsto> grid_ragged] (Inr ()) ''map1'' = Inr map_ragged \<and>
   check_collision round_double (Player_init 0 0 map_ragged) 32 32 = Inl IndexError \<and>
   rectangular map_strip \<and>
   check_collision round_double (Player_init 0 0 map_strip) (1 - 1 / 2 ^ 53) 0 = Inr True \<and>
   \<not> blocked_at grid_strip (1 - 1 / 2 ^ 53) 0 32 32"
proof -
  have "Map_init [''map1'' \<mapsto> grid_jut] (Inr ()) ''map1'' = Inr map_jut"
    by (simp add: Map_init_def py_index_def grid_jut_def map_jut_def)
  moreover have "check_collision round_double (Player_init 0 0 map_jut) 32 32 = Inr False"
    by (simp add: check_collision_def Player_init_def map_jut_def grid_jut_def TILE_SIZE_def)
  moreover have "blocked_at grid_jut 32 32 32 32"
    by (simp add: blocked_at_def in_bounds_def tile_coord_def grid_jut_def TILE_SIZE_def)
  moreover have "Map_init [''map1'' \<mapsto> grid_ragged] (Inr ()) ''map1'' = Inr map_ragged"
    by (simp add: Map_init_def py_index_def grid_ragged_def map_ragged_def)
  moreover have "check_collision round_double (Player_init 0 0 map_ragged) 32 32 = Inl IndexError"
    by (simp add: check_collision_def Player_init_def map_ragged_def grid_ragged_def
        TILE_SIZE_def py_index_def)
  moreover have "rectangular map_strip"
    by (simp add: rectangular_def map_strip_def grid_strip_def)
  moreover have "check_collision round_double (Player_init 0 0 map_strip) (1 - 1 / 2 ^ 53) 0
                   = Inr True"
    using round_double_below_33
    by (simp add: check_collision_def Player_init_def map_strip_def grid_strip_def TILE_SIZE_def
        py_index_def)
  moreover have "\<not> blocked_at grid_strip (1 - 1 / 2 ^ 53) 0 32 32"
    by (simp add: blocked_at_def in_bounds_def tile_coord_def grid_strip_def TILE_SIZE_def)
  ultimately show ?thesis by (intro conjI)
qed

text \<open>
  C6, amended: on a map all of whose rows have the map's width, the collision test never
  raises, and it returns true iff one of the four corners \<open>(x, y)\<close>, \<open>(x, y2)\<close>,
  \<open>(x2, y)\<close>, \<open>(x2, y2)\<close>, where \<open>x2\<close> and \<open>y2\<close> are \<open>x + w - 1\<close> and \<open>y + h - 1\<close> as
  the float arithmetic rounds them, divided by the tile size and rounded down, is in bounds
  of the grid and holds a wall; a corner out of bounds does not block. This holds for every
  rounding.
\<close>

theorem check_collision_four_corners:
  assumes "rectangular (current_map self)"
  shows "check_collision rnd self x y =
           Inr (\<exists>cx \<in> {x, rnd (rnd (x + real_of_int (rect_width self)) - 1)}.
                \<exists>cy \<in> {y, rnd (rnd (y + real_of_int (rect_height self)) - 1)}.
                  in_bounds (map_array (current_map self)) (tile_coord cx) (tile_coord cy) \<and>
                  map_array (current_map self) ! nat (tile_coord cy) ! nat (tile_coord cx) = WALL)"
  using check_collision_rectangular [OF assms, of rnd x y]
  by (simp add: blocked_at_fl_def far_corner_def)

theorem check_collision_four_corners_witness:
  "rectangular (current_map player5) \<and>
   check_collision round_double player5 30 32 = Inr True \<and>
   check_collision round_double player5 34 32 = Inr False \<and>
   check_collision round_double player5 (- 40) 32 = Inr False \<and>
   rectangular (current_map (Player_init 0 0 map_strip)) \<and>
   check_collision round_double (Player_init 0 0 map_strip) (1 - 1 / 2 ^ 53) 0 = Inr True"
proof -
  have r: "rectangular (current_map player5)"
    by (simp add: player5_def Player_init_def rectangular_map5)
  have s: "rectangular (current_map (Player_init 0 0 map_strip))"
    by (simp add: Player_init_def rectangular_def map_strip_def grid_strip_def)
  have a: "check_collision round_double player5 30 32 = Inr True"
    using check_collision_four_corners [OF r, of round_double 30 32]
    by (simp add: player5_def Player_init_def map5_def grid5_def
        in_bounds_def tile_coord_def TILE_SIZE_def)
  have b: "check_collision round_double player5 34 32 = Inr False"
    using check_collision_four_corners [OF r, of round_double 34 32]
    by (simp add: player5_def Player_init_def map5_def grid5_def
        in_bounds_def tile_coord_def TILE_SIZE_def)
  have c: "check_collision round_double player5 (- 40) 32 = Inr False"
    using check_collision_four_corners [OF r, of round_double "- 40" 32]
    by (simp add: player5_def Player_init_def map5_def grid5_def
        in_bounds_def tile_coord_def TILE_SIZE_def)
  have d: "check_collision round_double (Player_init 0 0 map_strip) (1 - 1 / 2 ^ 53) 0 = Inr True"
    using check_collision_four_corners [OF s, of round_double "1 - 1 / 2 ^ 53" 0]
      round_double_below_33
    by (simp add: Player_init_def map_strip_def grid_strip_def
        in_bounds_def tile_coord_def TILE_SIZE_def)
  from r a b c s d show ?thesis by (intro conjI)
qed

section \<open>The update of the player\<close>

lemma clamp_to_map_fields [simp]:
  "current_map (clamp_to_map s) = current_map s"
  "rect_width (clamp_to_map s) = rect_width s"
  "rect_height (clamp_to_map s) = rect_height s"
  by (simp_all add: clamp_to_map_def Let_def)

lemma clamp_to_map_within:
  assumes "rect_width s \<le> width (current_map s) * TILE_SIZE"
      and "rect_height s \<le> height (current_map s) * TILE_SIZE"
  shows "0 \<le> world_x (clamp_to_map s)"
    and "world_x (clamp_to_map s) \<le> real_of_int (width (current_map s) * TILE_SIZE - rect_width s)"
    and "0 \<le> world_y (clamp_to_map s)"
    and "world_y (clamp_to_map s) \<le> real_of_int (height (current_map s) * TILE_SIZE - rect_height s)"
proof -
  have "real_of_int (rect_width s) \<le> real_of_int (width (current_map s) * TILE_SIZE)"
    using assms(1) by (simp only: of_int_le_iff)
  moreover have "real_of_int (rect_height s) \<le> real_of_int (height (current_map s) * TILE_SIZE)"
    using assms(2) by (simp only: of_int_le_iff)
  ultimately show "0 \<le> world_x (clamp_to_map s)"
    and "world_x (clamp_to_map s) \<le> real_of_int (width (current_map s) * TILE_SIZE - rect_width s)"
    and "0 \<le> world_y (clamp_to_map s)"
    and "world_y (clamp_to_map s) \<le> real_of_int (height (current_map s) * TILE_SIZE - rect_height s)"
    by (simp_all add: clamp_to_map_def Let_def)
qed

lemma resolve_collision_fields:
  assumes "resolve_collision rnd self = Inr s"
  shows "current_map s = current_map self \<and> rect_width s = rect_width self \<and>
         rect_height s = rect_height self"
  using assms
  by (auto simp: resolve_collision_def Let_def split: prod.splits if_splits sum.splits)

lemma resolve_collision_rectangular:
  assumes "rectangular (current_map self)"
  shows "\<exists>s. resolve_collision rnd self = Inr s"
  by (auto simp: resolve_collision_def Let_def check_collision_rectangular assms
      split: prod.splits)

text \<open>
  C1. Whenever \<open>update\<close> completes, the player's position lies in
  \<open>[0, map_pixel_width - rect_width]\<close> on the x axis and in
  \<open>[0, map_pixel_height - rect_height]\<close> on the y axis, whatever the movement vector and the
  starting position were, provided the map is at least as large as the player's rectangle.
  The map and the rectangle's size are left as they were, so the bound holds again after
  the next tick. On a rectangular map \<open>update\<close> always completes. This holds for every
  rounding of the float operations.
\<close>

theorem update_within_map:
  assumes "rect_width self \<le> width (current_map self) * TILE_SIZE"
      and "rect_height self \<le> height (current_map self) * TILE_SIZE"
  shows "(\<forall>s. update rnd self = Inr s \<longrightarrow>
            0 \<le> world_x s \<and>
            world_x s \<le> real_of_int (width (current_map self) * TILE_SIZE - rect_width self) \<and>
            0 \<le> world_y s \<and>
            world_y s \<le> real_of_int (height (current_map self) * TILE_SIZE - rect_height self) \<and>
            current_map s = current_map self \<and>
            rect_width s = rect_width self \<and> rect_height s = rect_height self) \<and>
         (rectangular (current_map self) \<longrightarrow> (\<exists>s. update rnd self = Inr s))"
proof (intro conjI allI impI)
  fix s assume u: "update rnd self = Inr s"
  then obtain q where q: "resolve_collision rnd self = Inr q" and s: "s = clamp_to_map q"
    by (auto simp: update_def split: sum.splits)
  from resolve_collision_fields [OF q] assms
  have w: "rect_width q \<le> width (current_map q) * TILE_SIZE"
    and h: "rect_height q \<le> height (current_map q) * TILE_SIZE"
    and e: "current_map q = current_map self" "rect_width q = rect_width self"
      "rect_height q = rect_height self"
    by simp_all
  show "0 \<le> world_x s" unfolding s by (rule clamp_to_map_within(1) [OF w h])
  show "world_x s \<le> real_of_int (width (current_map self) * TILE_SIZE - rect_width self)"
    using clamp_to_map_within(2) [OF w h] unfolding s e .
  show "0 \<le> world_y s" unfolding s by (rule clamp_to_map_within(3) [OF w h])
  show "world_y s \<le> real_of_int (height (current_map self) * TILE_SIZE - rect_height self)"
    using clamp_to_map_within(4) [OF w h] unfolding s e .
  show "current_map s = current_map self" by (simp add: s e)
  show "rect_width s = rect_width self" by (simp add: s e)
  show "rect_height s = rect_height self" by (simp add: s e)
next
  assume "rectangular (current_map self)"
  from resolve_collision_rectangular [OF this, of rnd]
  show "\<exists>s. update rnd self = Inr s" by (auto simp: update_def)
qed

lemma update_player_edge: "update round_double player_edge = Inr (player_edge\<lparr>world_x := 0\<rparr>)"
  by (simp add: update_def resolve_collision_def displacement_fl_def mag_sq_fl_def
      clamp_to_map_def player_edge_def handle_input_def is_pressed_def press_def
      action_names_def check_collision_def Player_init_def map_open_def grid_open_def
      config_defs py_index_def Let_def)

lemma player_edge_fields:
  "world_x player_edge = 1" "world_y player_edge = 0" "change_x player_edge = - 2"
  "current_map player_edge = map_open" "rect_width player_edge = 32"
  "rect_height player_edge = 32"
  by (simp_all add: player_edge_def handle_input_def is_pressed_def press_def action_names_def Player_init_def
      Let_def config_defs)

theorem update_within_map_witness:
  "rect_width player_edge \<le> width (current_map player_edge) * TILE_SIZE \<and>
   rect_height player_edge \<le> height (current_map player_edge) * TILE_SIZE \<and>
   rectangular (current_map player_edge) \<and>
   world_x player_edge + change_x player_edge < 0 \<and>
   (\<exists>s. update round_double player_edge = Inr s \<and> world_x s = 0 \<and>
        world_x s \<le> real_of_int (width (current_map player_edge) * TILE_SIZE
                                   - rect_width player_edge) \<and>
        0 \<le> world_y s \<and>
        world_y s \<le> real_of_int (height (current_map player_edge) * TILE_SIZE
                                   - rect_height player_edge))"
proof -
  have w: "rect_width player_edge \<le> width (current_map player_edge) * TILE_SIZE"
    by (simp add: player_edge_fields map_open_def TILE_SIZE_def)
  have h: "rect_height player_edge \<le> height (current_map player_edge) * TILE_SIZE"
    by (simp add: player_edge_fields map_open_def TILE_SIZE_def)
  have r: "rectangular (current_map player_edge)"
    by (simp add: player_edge_fields map_open_def grid_open_def rectangular_def)
  have m: "world_x player_edge + change_x player_edge < 0"
    by (simp add: player_edge_fields)
  from update_within_map [OF w h, of round_double] update_player_edge
  have "\<exists>s. update round_double player_edge = Inr s \<and> world_x s = 0 \<and>
        world_x s \<le> real_of_int (width (current_map player_edge) * TILE_SIZE
                                   - rect_width player_edge) \<and>
        0 \<le> world_y s \<and>
        world_y s \<le> real_of_int (height (current_map player_edge) * TILE_SIZE
                                   - rect_height player_edge)"
    by auto
  with w h r m show ?thesis by blast
qed
lemma displacement_fl_exact: "displacement_fl (\<lambda>v. v) self = displacement self"
  by (simp add: displacement_fl_def displacement_def mag_sq_fl_def)

lemma displacement_fl_still:
  assumes "\<not> 0 < mag_sq_fl rnd self"
  shows "displacement_fl rnd self = (0, 0)"
  using assms by (simp add: displacement_fl_def)

text \<open>
  C2. Collision is resolved axis by axis, for every map and every rounding of the float
  operations. With \<open>(dx, dy)\<close> the displacement and a movement vector that is not zero:
  the first test is at \<open>(world_x + dx, world_y)\<close>, and the x position becomes
  \<open>world_x + dx\<close> iff that test answers "not blocked"; the second test is at
  \<open>(x1, world_y + dy)\<close>, \<open>x1\<close> being the x position after the first step, and the y position
  becomes \<open>world_y + dy\<close> iff that test answers "not blocked". So when one axis is blocked
  and the other is clear, the clear axis still advances. \<open>update\<close> is the clamp of the
  resulting position. A test that raises makes \<open>update\<close> raise; with a zero movement
  vector there is no test and no move; on a rectangular map both tests answer. The sums
  are the rounded ones, those the program tests and commits.
\<close>

theorem update_axis_separated:
  assumes "displacement_fl rnd self = (dx, dy)"
      and "test_x = check_collision rnd self (rnd (world_x self + dx)) (world_y self)"
      and "x1 = (if test_x = Inr False then rnd (world_x self + dx) else world_x self)"
      and "test_y = check_collision rnd self x1 (rnd (world_y self + dy))"
      and "y1 = (if test_y = Inr False then rnd (world_y self + dy) else world_y self)"
      and "moving = (0 < mag_sq_fl rnd self)"
  shows "(moving \<and> (\<exists>bx. test_x = Inr bx) \<and> (\<exists>by. test_y = Inr by) \<longrightarrow>
            resolve_collision rnd self = Inr (self\<lparr>world_x := x1, world_y := y1\<rparr>) \<and>
            update rnd self = Inr (clamp_to_map (self\<lparr>world_x := x1, world_y := y1\<rparr>))) \<and>
         (moving \<and> test_x = Inr True \<and> test_y = Inr False \<longrightarrow>
            resolve_collision rnd self = Inr (self\<lparr>world_y := rnd (world_y self + dy)\<rparr>)) \<and>
         (moving \<and> test_x = Inr False \<and> test_y = Inr True \<longrightarrow>
            resolve_collision rnd self = Inr (self\<lparr>world_x := rnd (world_x self + dx)\<rparr>)) \<and>
         (moving \<longrightarrow>
            (\<forall>e. test_x = Inl e \<or> ((\<exists>bx. test_x = Inr bx) \<and> test_y = Inl e) \<longrightarrow>
                 update rnd self = Inl e)) \<and>
         (\<not> moving \<longrightarrow> dx = 0 \<and> dy = 0 \<and> resolve_collision rnd self = Inr self) \<and>
         (rectangular (current_map self) \<longrightarrow>
            (\<exists>bx. test_x = Inr bx) \<and> (\<exists>by. test_y = Inr by))"
proof -
  have both: "resolve_collision rnd self = Inr (self\<lparr>world_x := x1, world_y := y1\<rparr>)"
    if "moving" "test_x = Inr bx" "test_y = Inr by" for bx "by"
  proof -
    have tx: "check_collision rnd self (rnd (world_x self + dx)) (world_y self) = Inr bx"
      using that(2) assms(2) by simp
    have x1: "x1 = (if bx then world_x self else rnd (world_x self + dx))"
      using that(2) by (simp add: assms(3))
    have ty: "check_collision rnd self x1 (rnd (world_y self + dy)) = Inr by"
      using that(3) assms(4) by simp
    have y1: "y1 = (if by then world_y self else rnd (world_y self + dy))"
      using that(3) by (simp add: assms(5))
    show ?thesis
      using that(1) tx ty
      by (cases bx; cases "by")
         (simp_all add: resolve_collision_def assms(1,6) x1 y1)
  qed
  have raise: "update rnd self = Inl e"
    if "moving" "test_x = Inl e \<or> ((\<exists>bx. test_x = Inr bx) \<and> test_y = Inl e)" for e
    using that(2)
  proof
    assume "test_x = Inl e"
    then have "check_collision rnd self (rnd (world_x self + dx)) (world_y self) = Inl e"
      using assms(2) by simp
    then show ?thesis
      using that(1) by (simp add: update_def resolve_collision_def assms(1,6))
  next
    assume a: "(\<exists>bx. test_x = Inr bx) \<and> test_y = Inl e"
    then obtain bx where bx: "test_x = Inr bx" by blast
    have tx: "check_collision rnd self (rnd (world_x self + dx)) (world_y self) = Inr bx"
      using bx assms(2) by simp
    have x1: "x1 = (if bx then world_x self else rnd (world_x self + dx))"
      using bx by (simp add: assms(3))
    have ty: "check_collision rnd self x1 (rnd (world_y self + dy)) = Inl e"
      using a assms(4) by simp
    show ?thesis
      using that(1) tx ty
      by (cases bx) (simp_all add: update_def resolve_collision_def assms(1,6) x1)
  qed
  have still: "dx = 0 \<and> dy = 0 \<and> resolve_collision rnd self = Inr self" if "\<not> moving"
  proof -
    from that have n: "\<not> 0 < mag_sq_fl rnd self" by (simp add: assms(6))
    from displacement_fl_still [OF n] assms(1) have "dx = 0" "dy = 0" by simp_all
    moreover have "resolve_collision rnd self = Inr self"
      using n by (simp add: resolve_collision_def assms(1))
    ultimately show ?thesis by simp
  qed
  have rect: "(\<exists>bx. test_x = Inr bx) \<and> (\<exists>by. test_y = Inr by)"
    if "rectangular (current_map self)"
    using check_collision_rectangular [OF that] by (simp add: assms(2,4))
  have c1: "moving \<and> (\<exists>bx. test_x = Inr bx) \<and> (\<exists>by. test_y = Inr by) \<longrightarrow>
            resolve_collision rnd self = Inr (self\<lparr>world_x := x1, world_y := y1\<rparr>) \<and>
            update rnd self = Inr (clamp_to_map (self\<lparr>world_x := x1, world_y := y1\<rparr>))"
  proof
    assume a: "moving \<and> (\<exists>bx. test_x = Inr bx) \<and> (\<exists>by. test_y = Inr by)"
    then obtain bx "by" where "test_x = Inr bx" "test_y = Inr by" by blast
    with a have r: "resolve_collision rnd self = Inr (self\<lparr>world_x := x1, world_y := y1\<rparr>)"
      using both by blast
    then have "update rnd self = Inr (clamp_to_map (self\<lparr>world_x := x1, world_y := y1\<rparr>))"
      by (simp only: update_def sum.case)
    with r show "resolve_collision rnd self = Inr (self\<lparr>world_x := x1, world_y := y1\<rparr>) \<and>
            update rnd self = Inr (clamp_to_map (self\<lparr>world_x := x1, world_y := y1\<rparr>))"
      by (rule conjI)
  qed
  have c2: "moving \<and> test_x = Inr True \<and> test_y = Inr False \<longrightarrow>
            resolve_collision rnd self = Inr (self\<lparr>world_y := rnd (world_y self + dy)\<rparr>)"
  proof
    assume a: "moving \<and> test_x = Inr True \<and> test_y = Inr False"
    then have "resolve_collision rnd self = Inr (self\<lparr>world_x := x1, world_y := y1\<rparr>)"
      using both by blast
    moreover have "x1 = world_x self" "y1 = rnd (world_y self + dy)"
      using a by (simp_all add: assms(3,5))
    ultimately show "resolve_collision rnd self = Inr (self\<lparr>world_y := rnd (world_y self + dy)\<rparr>)"
      by simp
  qed
  have c3: "moving \<and> test_x = Inr False \<and> test_y = Inr True \<longrightarrow>
            resolve_collision rnd self = Inr (self\<lparr>world_x := rnd (world_x self + dx)\<rparr>)"
  proof
    assume a: "moving \<and> test_x = Inr False \<and> test_y = Inr True"
    then have "resolve_collision rnd self = Inr (self\<lparr>world_x := x1, world_y := y1\<rparr>)"
      using both by blast
    moreover have "x1 = rnd (world_x self + dx)" "y1 = world_y self"
      using a by (simp_all add: assms(3,5))
    ultimately show "resolve_collision rnd self = Inr (self\<lparr>world_x := rnd (world_x self + dx)\<rparr>)"
      by simp
  qed
  have c4: "moving \<longrightarrow>
            (\<forall>e. test_x = Inl e \<or> ((\<exists>bx. test_x = Inr bx) \<and> test_y = Inl e) \<longrightarrow>
                 update rnd self = Inl e)"
    using raise by (intro impI allI)
  have c5: "\<not> moving \<longrightarrow> dx = 0 \<and> dy = 0 \<and> resolve_collision rnd self = Inr self"
    using still by (intro impI)
  have c6: "rectangular (current_map self) \<longrightarrow>
            (\<exists>bx. test_x = Inr bx) \<and> (\<exists>by. test_y = Inr by)"
    using rect by (intro impI)
  show ?thesis
    by (intro conjI) (fact c1 c2 c3 c4 c5 c6)+
qed
text \<open>
  The floats of the two-tick walk, and the two ticks.
\<close>

lemma sqrt8_between:
  "12738103345051545 / 2 ^ 52 < sqrt 8" "sqrt 8 < 12738103345051547 / 2 ^ 52"
proof -
  show "12738103345051545 / 2 ^ 52 < sqrt 8"
    by (rule real_less_rsqrt) (simp add: power2_eq_square)
  show "sqrt 8 < 12738103345051547 / 2 ^ 52"
    by (rule real_less_lsqrt) (simp_all add: power2_eq_square)
qed

lemma round_double_sqrt8: "round_double (sqrt 8) = sqrt8_fl"
proof -
  note b = sqrt8_between
  have "2 powi 1 \<le> \<bar>sqrt 8\<bar>" using b(1) by simp
  moreover have "\<bar>sqrt 8\<bar> < 2 powi (1 + 1)" using b(2) by simp
  ultimately have e: "round_double (sqrt 8) =
      real_of_int (round_half_even (sqrt 8 / 2 powi (1 - 52))) * 2 powi (1 - 52)"
    by (rule round_double_eval) simp
  have "round_half_even (sqrt 8 / 2 powi (1 - 52)) = 6369051672525773"
  proof (rule round_half_even_unique)
    show "real_of_int 6369051672525773 - 1 / 2 < sqrt 8 / 2 powi (1 - 52)"
      using b(1) by simp
    show "sqrt 8 / 2 powi (1 - 52) < real_of_int 6369051672525773 + 1 / 2"
      using b(2) by simp
  qed
  then show ?thesis unfolding e by (simp add: sqrt8_fl_def)
qed

lemma round_double_scale: "round_double (2 / sqrt8_fl) = scale_fl"
  unfolding sqrt8_fl_def scale_fl_def
  by (subst round_double_eval [of "- 1"]) (simp_all add: round_half_even_def)

lemma round_double_step:
  "round_double (2 * scale_fl) = diag_step"
  "round_double (- (2 * scale_fl)) = - diag_step"
  unfolding diag_step_def scale_fl_def
  by (subst round_double_eval [of 0]; simp add: round_half_even_def)+

lemma round_double_forth:
  "round_double (64 + diag_step) = x_forth"
  "round_double (32 + diag_step) = y_forth"
  unfolding diag_step_def x_forth_def y_forth_def
proof -
  show "round_double (64 + 1592262918131443 / 2 ^ 50) = 4603116059753711 / 2 ^ 46"
    by (subst round_double_eval [of 6]) (simp_all add: round_half_even_def)
  show "round_double (32 + 1592262918131443 / 2 ^ 50) = 2351316246068463 / 2 ^ 46"
    by (subst round_double_eval [of 5]) (simp_all add: round_half_even_def)
qed

lemma round_double_back:
  "round_double (x_forth - diag_step) = 64"
  "round_double (y_forth - diag_step) = y_back"
  unfolding diag_step_def x_forth_def y_forth_def y_back_def
proof -
  show "round_double (4603116059753711 / 2 ^ 46 - 1592262918131443 / 2 ^ 50) = 64"
    by (subst round_double_eval [of 5]) (simp_all add: round_half_even_def)
  show "round_double (2351316246068463 / 2 ^ 46 - 1592262918131443 / 2 ^ 50)
     = 9007199254740991 / 2 ^ 48"
    by (subst round_double_eval [of 4]) (simp_all add: round_half_even_def)
qed

lemma exact_back: "x_forth - diag_step < 64"
  by (simp add: x_forth_def diag_step_def)

lemma far_corner_forth:
  "far_corner round_double x_forth 32 = 6784547129261295 / 2 ^ 46"
  "far_corner round_double y_forth 32 = 4532747315576047 / 2 ^ 46"
proof -
  have a: "round_double (4603116059753711 / 2 ^ 46 + 32) = 6854915873438959 / 2 ^ 46"
    by (subst round_double_eval [of 6]) (simp_all add: round_half_even_def)
  have b: "round_double (6854915873438959 / 2 ^ 46 - 1) = 6784547129261295 / 2 ^ 46"
    by (subst round_double_eval [of 6]) (simp_all add: round_half_even_def)
  have c: "round_double (2351316246068463 / 2 ^ 46 + 32) = 4603116059753711 / 2 ^ 46"
    by (subst round_double_eval [of 6]) (simp_all add: round_half_even_def)
  have d: "round_double (4603116059753711 / 2 ^ 46 - 1) = 4532747315576047 / 2 ^ 46"
    by (subst round_double_eval [of 6]) (simp_all add: round_half_even_def)
  show "far_corner round_double x_forth 32 = 6784547129261295 / 2 ^ 46"
    by (simp only: far_corner_def x_forth_def of_int_numeral a b)
  show "far_corner round_double y_forth 32 = 4532747315576047 / 2 ^ 46"
    by (simp only: far_corner_def y_forth_def of_int_numeral c d)
qed

lemma far_corner_int: "far_corner round_double 64 32 = 95" "far_corner round_double 32 32 = 63"
  by (simp_all add: far_corner_def)

lemma flush_tiles:
  "tile_coord x_forth = 2" "tile_coord y_forth = 1" "tile_coord y_back = 0"
  "tile_coord 64 = 2" "tile_coord 32 = 1"
  by (simp_all add: tile_coord_def TILE_SIZE_def x_forth_def y_forth_def y_back_def)

lemma flush_far_tiles:
  "tile_coord (far_corner round_double x_forth 32) = 3"
  "tile_coord (far_corner round_double y_forth 32) = 2"
  "tile_coord (far_corner round_double 64 32) = 2"
  "tile_coord (far_corner round_double 32 32) = 1"
  by (simp_all add: far_corner_forth far_corner_int tile_coord_def TILE_SIZE_def)
lemma rectangular_map_flush: "rectangular map_flush"
  by (simp add: rectangular_def map_flush_def grid_flush_def)

lemma player_forth_fields:
  "world_x player_forth = 64" "world_y player_forth = 32"
  "change_x player_forth = 2" "change_y player_forth = 2" "current_speed player_forth = 2"
  "current_map player_forth = map_flush" "rect_width player_forth = 32"
  "rect_height player_forth = 32"
  by (simp_all add: player_forth_def handle_input_def is_pressed_def press_def action_names_def
      Player_init_def Let_def config_defs)

lemma player_back_fields:
  "world_x player_back = x_forth" "world_y player_back = y_forth"
  "change_x player_back = - 2" "change_y player_back = - 2" "current_speed player_back = 2"
  "current_map player_back = map_flush" "rect_width player_back = 32"
  "rect_height player_back = 32"
  by (simp_all add: player_back_def player_moved_def player_forth_def handle_input_def
      is_pressed_def press_def action_names_def Player_init_def Let_def config_defs)

lemma mag_sq_fl_flush:
  "mag_sq_fl round_double player_forth = 8" "mag_sq_fl round_double player_back = 8"
  by (simp_all add: mag_sq_fl_def player_forth_fields player_back_fields)

lemma displacement_fl_flush:
  "displacement_fl round_double player_forth = (diag_step, diag_step)"
  "displacement_fl round_double player_back = (- diag_step, - diag_step)"
  by (simp_all add: displacement_fl_def mag_sq_fl_flush player_forth_fields player_back_fields
      round_double_sqrt8 round_double_scale round_double_step)

lemma blocked_flush:
  "\<not> blocked_at_fl round_double grid_flush x_forth 32 32 32"
  "\<not> blocked_at_fl round_double grid_flush x_forth y_forth 32 32"
  "\<not> blocked_at_fl round_double grid_flush 64 y_forth 32 32"
  "blocked_at_fl round_double grid_flush 64 y_back 32 32"
  by (simp_all add: blocked_at_fl_def flush_tiles flush_far_tiles in_bounds_def grid_flush_def)

lemma map_array_map_flush: "map_array map_flush = grid_flush"
  by (simp add: map_flush_def)

lemma check_flush:
  "check_collision round_double player_forth x_forth 32 = Inr False"
  "check_collision round_double player_forth x_forth y_forth = Inr False"
  "check_collision round_double player_back 64 y_forth = Inr False"
  "check_collision round_double player_back 64 y_back = Inr True"
  by (simp_all add: check_collision_rectangular rectangular_map_flush player_forth_fields
      player_back_fields map_array_map_flush blocked_flush)

lemma update_player_forth: "update round_double player_forth = Inr player_moved"
proof -
  have "0 < mag_sq_fl round_double player_forth" by (simp add: mag_sq_fl_flush)
  then have "resolve_collision round_double player_forth = Inr player_moved"
    by (simp add: resolve_collision_def displacement_fl_flush player_forth_fields
        round_double_forth check_flush player_moved_def)
  moreover have "clamp_to_map player_moved = player_moved"
    by (simp add: clamp_to_map_def player_moved_def player_forth_fields map_flush_def
        TILE_SIZE_def x_forth_def y_forth_def)
  ultimately show ?thesis by (simp add: update_def)
qed

theorem update_axis_separated_witness:
  "update round_double player_forth = Inr player_moved \<and>
   player_back = handle_input (press [''left'', ''up'']) player_moved \<and>
   displacement_fl round_double player_back = (- diag_step, - diag_step) \<and>
   0 < mag_sq_fl round_double player_back \<and>
   world_x player_back + - diag_step < 64 \<and>
   round_double (world_x player_back + - diag_step) = 64 \<and>
   check_collision round_double player_back 64 (world_y player_back) = Inr False \<and>
   round_double (world_y player_back + - diag_step) = y_back \<and>
   check_collision round_double player_back 64 y_back = Inr True \<and>
   resolve_collision round_double player_back = Inr (player_back\<lparr>world_x := 64\<rparr>)"
proof -
  have d: "displacement_fl round_double player_back = (- diag_step, - diag_step)"
    by (rule displacement_fl_flush)
  have m: "0 < mag_sq_fl round_double player_back" by (simp add: mag_sq_fl_flush)
  have nx: "round_double (world_x player_back + - diag_step) = 64"
    and ny: "round_double (world_y player_back + - diag_step) = y_back"
    by (simp_all add: player_back_fields round_double_back)
  have ex: "world_x player_back + - diag_step < 64"
    using exact_back by (simp add: player_back_fields)
  have tx: "check_collision round_double player_back 64 (world_y player_back) = Inr False"
    by (simp add: player_back_fields check_flush)
  have ty: "check_collision round_double player_back 64 y_back = Inr True"
    by (rule check_flush)
  have h2: "Inr False = check_collision round_double player_back
              (round_double (world_x player_back + - diag_step)) (world_y player_back)"
    by (simp only: nx tx)
  have h3: "64 = (if (Inr False :: error + bool) = Inr False
                  then round_double (world_x player_back + - diag_step)
                  else world_x player_back)"
    using nx by simp
  have h4: "Inr True = check_collision round_double player_back 64
              (round_double (world_y player_back + - diag_step))"
    by (simp only: ny ty)
  have h5: "world_y player_back = (if (Inr True :: error + bool) = Inr False
                  then round_double (world_y player_back + - diag_step)
                  else world_y player_back)"
    by simp
  have h6: "True = (0 < mag_sq_fl round_double player_back)"
    using m by simp
  from update_axis_separated [OF d h2 h3 h4 h5 h6]
  have "resolve_collision round_double player_back =
          Inr (player_back\<lparr>world_x := round_double (world_x player_back + - diag_step)\<rparr>)"
    by blast
  then have r: "resolve_collision round_double player_back = Inr (player_back\<lparr>world_x := 64\<rparr>)"
    by (simp only: nx)
  have b: "player_back = handle_input (press [''left'', ''up'']) player_moved"
    by (rule player_back_def)
  from update_player_forth b d m ex nx tx ny ty r show ?thesis
    by (intro conjI)
qed
section \<open>Intent resolution\<close>

lemma press_pressed:
  "is_pressed (press actions) a \<longleftrightarrow> a \<in> set action_names \<and> a \<in> set actions"
  by (simp add: press_def is_pressed_def)

lemma handle_input_change:
  "change_x (handle_input im self) =
     (if is_pressed im ''right'' then current_speed (handle_input im self)
      else if is_pressed im ''left'' then - current_speed (handle_input im self) else 0)"
  "change_y (handle_input im self) =
     (if is_pressed im ''down'' then current_speed (handle_input im self)
      else if is_pressed im ''up'' then - current_speed (handle_input im self) else 0)"
  "current_speed (handle_input im self) =
     (if is_pressed im ''sprint'' then sprint_speed self else walk_speed self)"
  by (simp_all add: handle_input_def Let_def)

lemma handle_input_direction:
  "current_direction (handle_input im self) =
     (if is_pressed im ''down'' then ''down''
      else if is_pressed im ''up'' then ''up''
      else if is_pressed im ''right'' then ''right''
      else if is_pressed im ''left'' then ''left''
      else current_direction self)"
  by (simp add: handle_input_def Let_def)

text \<open>
  C7. When left and right are both held the horizontal movement is the rightward one
  (\<open>change_x\<close> is the positive speed), when up and down are both held the vertical movement
  is the downward one, and the facing is the last active direction in the order left,
  right, up, down.
\<close>

theorem handle_input_tie_break:
  "(is_pressed im ''left'' \<and> is_pressed im ''right'' \<longrightarrow>
      change_x (handle_input im self) = current_speed (handle_input im self)) \<and>
   (is_pressed im ''up'' \<and> is_pressed im ''down'' \<longrightarrow>
      change_y (handle_input im self) = current_speed (handle_input im self)) \<and>
   (walk_speed self = WALK_SPEED \<and> sprint_speed self = SPRINT_SPEED \<longrightarrow>
      0 < current_speed (handle_input im self)) \<and>
   current_direction (handle_input im self) = facing_in_order im (current_direction self)"
proof -
  have d: "current_direction (handle_input im self) = facing_in_order im (current_direction self)"
    by (simp add: handle_input_direction facing_in_order_def)
  have x: "is_pressed im ''left'' \<and> is_pressed im ''right'' \<longrightarrow>
      change_x (handle_input im self) = current_speed (handle_input im self)"
    by (simp add: handle_input_change(1))
  have y: "is_pressed im ''up'' \<and> is_pressed im ''down'' \<longrightarrow>
      change_y (handle_input im self) = current_speed (handle_input im self)"
    by (simp add: handle_input_change(2))
  have p: "walk_speed self = WALK_SPEED \<and> sprint_speed self = SPRINT_SPEED \<longrightarrow>
      0 < current_speed (handle_input im self)"
    by (simp add: handle_input_change(3) config_defs)
  from x y p d show ?thesis by blast
qed

theorem handle_input_tie_break_witness:
  "is_pressed all_held ''left'' \<and> is_pressed all_held ''right'' \<and>
   is_pressed all_held ''up'' \<and> is_pressed all_held ''down'' \<and>
   walk_speed player5 = WALK_SPEED \<and> sprint_speed player5 = SPRINT_SPEED \<and>
   change_x (handle_input all_held player5) = 2 \<and>
   change_y (handle_input all_held player5) = 2 \<and>
   current_direction (handle_input all_held player5) = ''down'' \<and>
   current_direction (handle_input (press [''left'', ''right'']) player5) = ''right'' \<and>
   current_direction (handle_input (press [''right'', ''up'']) player5) = ''up''"
proof -
  have h: "is_pressed all_held ''left''" "is_pressed all_held ''right''"
    "is_pressed all_held ''up''" "is_pressed all_held ''down''"
    "\<not> is_pressed all_held ''sprint''"
    by (simp_all add: all_held_def press_pressed action_names_def)
  have s: "walk_speed player5 = WALK_SPEED" "sprint_speed player5 = SPRINT_SPEED"
    by (simp_all add: player5_def Player_init_def)
  have c: "current_speed (handle_input all_held player5) = 2"
    by (simp add: handle_input_change(3) h s WALK_SPEED_def)
  have "change_x (handle_input all_held player5) = 2"
    and "change_y (handle_input all_held player5) = 2"
    and "current_direction (handle_input all_held player5) = ''down''"
    using handle_input_tie_break [of all_held player5] h c
    by (simp_all add: facing_in_order_def)
  moreover have "current_direction (handle_input (press [''left'', ''right'']) player5) = ''right''"
    using handle_input_tie_break [of "press [''left'', ''right'']" player5]
    by (simp add: facing_in_order_def press_pressed action_names_def)
  moreover have "current_direction (handle_input (press [''right'', ''up'']) player5) = ''up''"
    using handle_input_tie_break [of "press [''right'', ''up'']" player5]
    by (simp add: facing_in_order_def press_pressed action_names_def)
  ultimately show ?thesis using h s by blast
qed

text \<open>
  C10. When none of left, right, up, down is active, \<open>handle_input\<close> leaves the facing as it
  was, although it resets the movement vector to zero; a new player faces down.
\<close>

theorem handle_input_idle_keeps_facing:
  assumes "\<not> is_pressed im ''left''" and "\<not> is_pressed im ''right''"
      and "\<not> is_pressed im ''up''" and "\<not> is_pressed im ''down''"
  shows "current_direction (handle_input im self) = current_direction self \<and>
         change_x (handle_input im self) = 0 \<and> change_y (handle_input im self) = 0 \<and>
         current_direction (Player_init x y cur_map) = ''down''"
  using assms
  by (simp add: handle_input_direction handle_input_change(1,2) Player_init_def)

theorem handle_input_idle_keeps_facing_witness:
  "\<not> is_pressed (press [''sprint'']) ''left'' \<and> \<not> is_pressed (press [''sprint'']) ''right'' \<and>
   \<not> is_pressed (press [''sprint'']) ''up'' \<and> \<not> is_pressed (press [''sprint'']) ''down'' \<and>
   current_direction player_edge = ''left'' \<and> change_x player_edge = - 2 \<and>
   current_direction (handle_input (press [''sprint'']) player_edge) = ''left'' \<and>
   change_x (handle_input (press [''sprint'']) player_edge) = 0"
proof -
  have n: "\<not> is_pressed (press [''sprint'']) ''left''" "\<not> is_pressed (press [''sprint'']) ''right''"
    "\<not> is_pressed (press [''sprint'']) ''up''" "\<not> is_pressed (press [''sprint'']) ''down''"
    by (simp_all add: press_pressed action_names_def)
  have e: "current_direction player_edge = ''left''"
    by (simp add: player_edge_def handle_input_direction press_pressed action_names_def)
  from handle_input_idle_keeps_facing [OF n, of player_edge] e n player_edge_fields(3)
  show ?thesis by simp
qed

section \<open>The displacement\<close>

lemma displacement_player_slide: "displacement player_slide = (- (4 / sqrt 8), 4 / sqrt 8)"
  by (simp add: player_slide_def player5_def handle_input_def press_def action_names_def is_pressed_def
      Player_init_def displacement_def config_defs Let_def)

lemma displacement_diagonal:
  assumes "change_x self \<noteq> 0" "change_y self \<noteq> 0" "displacement self = (dx, dy)"
  shows "sqrt (dx\<^sup>2 + dy\<^sup>2) = \<bar>current_speed self\<bar>"
proof -
  let ?m = "(change_x self)\<^sup>2 + (change_y self)\<^sup>2"
  have m: "?m > 0" using assms(1) by (simp add: sum_power2_gt_zero_iff)
  have q: "(sqrt ?m)\<^sup>2 = ?m" by (rule real_sqrt_pow2) simp
  have dx: "dx = change_x self * (current_speed self / sqrt ?m)"
    and dy: "dy = change_y self * (current_speed self / sqrt ?m)"
    using assms(3) by (simp_all add: displacement_def Let_def assms(1,2) sum_power2_gt_zero_iff)
  have "dx\<^sup>2 + dy\<^sup>2 = ?m * (current_speed self / sqrt ?m)\<^sup>2"
    unfolding dx dy by (simp only: power_mult_distrib distrib_right)
  also have "\<dots> = ?m * ((current_speed self)\<^sup>2 / ?m)"
    by (simp only: power_divide q)
  also have "\<dots> = (current_speed self)\<^sup>2"
    by (simp add: assms(1))
  finally show ?thesis by simp
qed

text \<open>
  C3. After intent resolution with the configured speeds, the displacement computed by
  \<open>update\<close> before any collision test has Euclidean length equal to the current speed
  (\<open>WALK_SPEED\<close>, or \<open>SPRINT_SPEED\<close> when sprinting) when a horizontal and a vertical
  direction are both active; with only one axis active it is the speed along that axis,
  signed by the direction, and zero on the other. Arithmetic is exact (reals).
\<close>

theorem displacement_magnitude:
  assumes "walk_speed self = WALK_SPEED" and "sprint_speed self = SPRINT_SPEED"
      and "displacement (handle_input im self) = (dx, dy)"
      and "speed = (if is_pressed im ''sprint'' then SPRINT_SPEED else WALK_SPEED)"
      and "horizontal = (is_pressed im ''left'' \<or> is_pressed im ''right'')"
      and "vertical = (is_pressed im ''up'' \<or> is_pressed im ''down'')"
  shows "current_speed (handle_input im self) = speed \<and>
         (horizontal \<and> vertical \<longrightarrow> sqrt (dx\<^sup>2 + dy\<^sup>2) = speed) \<and>
         (horizontal \<and> \<not> vertical \<longrightarrow>
            dx = (if is_pressed im ''right'' then speed else - speed) \<and> dy = 0) \<and>
         (\<not> horizontal \<and> vertical \<longrightarrow>
            dx = 0 \<and> dy = (if is_pressed im ''down'' then speed else - speed))"
proof -
  let ?s = "handle_input im self"
  have cs: "current_speed ?s = speed"
    by (simp add: handle_input_change assms(1,2,4))
  have pos: "0 < speed" by (simp add: assms(4) config_defs)
  have diag: "sqrt (dx\<^sup>2 + dy\<^sup>2) = speed" if "horizontal" "vertical"
  proof -
    have "change_x ?s \<noteq> 0" using that(1) pos cs
      unfolding assms(5) by (auto simp: handle_input_change(1))
    moreover have "change_y ?s \<noteq> 0" using that(2) pos cs
      unfolding assms(6) by (auto simp: handle_input_change(2))
    ultimately have "sqrt (dx\<^sup>2 + dy\<^sup>2) = \<bar>current_speed ?s\<bar>"
      using assms(3) by (rule displacement_diagonal)
    then show ?thesis using cs pos by simp
  qed
  have hor: "dx = (if is_pressed im ''right'' then speed else - speed) \<and> dy = 0"
    if "horizontal" "\<not> vertical"
  proof -
    have y: "change_y ?s = 0" using that(2) unfolding assms(6)
      by (simp add: handle_input_change(2))
    have x: "change_x ?s = (if is_pressed im ''right'' then speed else - speed)"
      using that(1) cs unfolding assms(5) by (auto simp: handle_input_change(1))
    show ?thesis using assms(3) pos by (auto simp: displacement_def x y Let_def split: if_splits)
  qed
  have ver: "dx = 0 \<and> dy = (if is_pressed im ''down'' then speed else - speed)"
    if "\<not> horizontal" "vertical"
  proof -
    have x: "change_x ?s = 0" using that(1) unfolding assms(5)
      by (simp add: handle_input_change(1))
    have y: "change_y ?s = (if is_pressed im ''down'' then speed else - speed)"
      using that(2) cs unfolding assms(6) by (auto simp: handle_input_change(2))
    show ?thesis using assms(3) pos by (auto simp: displacement_def x y Let_def split: if_splits)
  qed
  from cs diag hor ver show ?thesis by blast
qed

theorem displacement_magnitude_witness:
  "walk_speed player5 = WALK_SPEED \<and> sprint_speed player5 = SPRINT_SPEED \<and>
   is_pressed (press [''left'', ''down'']) ''left'' \<and>
   is_pressed (press [''left'', ''down'']) ''down'' \<and>
   displacement (handle_input (press [''left'', ''down'']) player5) = (- (4 / sqrt 8), 4 / sqrt 8) \<and>
   sqrt ((- (4 / sqrt 8))\<^sup>2 + (4 / sqrt 8)\<^sup>2) = WALK_SPEED"
proof -
  have w: "walk_speed player5 = WALK_SPEED" and s: "sprint_speed player5 = SPRINT_SPEED"
    by (simp_all add: player5_def Player_init_def)
  have d: "displacement (handle_input (press [''left'', ''down'']) player5)
             = (- (4 / sqrt 8), 4 / sqrt 8)"
    using displacement_player_slide by (simp add: player_slide_def)
  have l: "is_pressed (press [''left'', ''down'']) ''left''"
    and dn: "is_pressed (press [''left'', ''down'']) ''down''"
    and sp: "\<not> is_pressed (press [''left'', ''down'']) ''sprint''"
    by (simp_all add: press_pressed action_names_def)
  from displacement_magnitude [OF w s d refl refl refl] l dn sp
  have "sqrt ((- (4 / sqrt 8))\<^sup>2 + (4 / sqrt 8)\<^sup>2) = WALK_SPEED"
    by simp
  with w s l dn d show ?thesis by blast
qed

section \<open>The camera\<close>

text \<open>
  C4. On each axis: when the map is at least as large as the viewport, the camera offset
  lies between \<open>viewport - map_pixels\<close> and \<open>0\<close> for every player position; otherwise it
  is \<open>(viewport - map_pixels) / 2\<close>, whatever the player position.
\<close>

theorem camera_clamped:
  "(if width m * TILE_SIZE \<ge> SCREEN_WIDTH
    then 0 \<ge> fst (camera m player) \<and>
         fst (camera m player) \<ge> real_of_int (SCREEN_WIDTH - width m * TILE_SIZE)
    else fst (camera m player) = real_of_int (SCREEN_WIDTH - width m * TILE_SIZE) / 2) \<and>
   (if height m * TILE_SIZE \<ge> SCREEN_HEIGHT
    then 0 \<ge> snd (camera m player) \<and>
         snd (camera m player) \<ge> real_of_int (SCREEN_HEIGHT - height m * TILE_SIZE)
    else snd (camera m player) = real_of_int (SCREEN_HEIGHT - height m * TILE_SIZE) / 2)"
proof -
  have x: "real_of_int ((SCREEN_WIDTH - width m * TILE_SIZE) div 2)
             = real_of_int (SCREEN_WIDTH - width m * TILE_SIZE) / 2"
    using real_of_int_div [of 2 "SCREEN_WIDTH - width m * TILE_SIZE"]
    by (simp add: config_defs)
  have y: "real_of_int ((SCREEN_HEIGHT - height m * TILE_SIZE) div 2)
             = real_of_int (SCREEN_HEIGHT - height m * TILE_SIZE) / 2"
    using real_of_int_div [of 2 "SCREEN_HEIGHT - height m * TILE_SIZE"]
    by (simp add: config_defs)
  have cx: "fst (camera m player) =
      (if width m * TILE_SIZE < SCREEN_WIDTH
       then real_of_int ((SCREEN_WIDTH - width m * TILE_SIZE) div 2)
       else min 0 (max (fst (camera_target player))
                       (real_of_int (SCREEN_WIDTH - width m * TILE_SIZE))))"
    by (simp add: camera_def Let_def split: prod.splits)
  have cy: "snd (camera m player) =
      (if height m * TILE_SIZE < SCREEN_HEIGHT
       then real_of_int ((SCREEN_HEIGHT - height m * TILE_SIZE) div 2)
       else min 0 (max (snd (camera_target player))
                       (real_of_int (SCREEN_HEIGHT - height m * TILE_SIZE))))"
    by (simp add: camera_def Let_def split: prod.splits)
  have px: "width m * TILE_SIZE \<ge> SCREEN_WIDTH \<Longrightarrow>
      real_of_int (SCREEN_WIDTH - width m * TILE_SIZE) \<le> 0"
    by (simp only: of_int_le_0_iff diff_le_0_iff_le)
  have py: "height m * TILE_SIZE \<ge> SCREEN_HEIGHT \<Longrightarrow>
      real_of_int (SCREEN_HEIGHT - height m * TILE_SIZE) \<le> 0"
    by (simp only: of_int_le_0_iff diff_le_0_iff_le)
  show ?thesis
    unfolding cx cy x y using px py by (auto simp del: of_int_diff of_int_mult)
qed

theorem camera_clamped_witness:
  "camera map5 player5 = (240, 160) \<and>
   camera map_big (Player_init 500 100 map_big) = (- 180, 0)"
  using camera_clamped [of map5 player5]
    camera_clamped [of map_big "Player_init 500 100 map_big"]
  by (simp add: camera_def camera_target_def map5_def map_big_def player5_def Player_init_def
      config_defs)

text \<open>
  C5, as stated: the target offset before clamping is the focus point minus the player's
  centre. It fails for the spawned player of the scenario: the code subtracts the world
  position, the top-left corner of the rectangle.
\<close>

theorem camera_target_not_centre:
  "camera_target player5 = (288, 208) \<and> camera_target_spec player5 = (272, 192) \<and>
   camera_target player5 \<noteq> camera_target_spec player5"
  by (simp add: camera_target_def camera_target_spec_def player5_def Player_init_def config_defs)

text \<open>
  C5, amended: the target offset before clamping is the focus point minus the player's
  world position (the top-left corner of its rectangle), so that this corner, not the
  centre, is drawn at the focus point; it exceeds the centre-based offset by half the
  bounding size and does not depend on the bounding size.
\<close>

theorem camera_target_top_left:
  "camera_target player =
     (real_of_int CAMERA_X - world_x player, real_of_int CAMERA_Y - world_y player) \<and>
   (world_x player + fst (camera_target player), world_y player + snd (camera_target player))
     = (real_of_int CAMERA_X, real_of_int CAMERA_Y) \<and>
   camera_target player =
     (fst (camera_target_spec player) + real_of_int (rect_width player) / 2,
      snd (camera_target_spec player) + real_of_int (rect_height player) / 2) \<and>
   camera_target (player\<lparr>rect_width := w, rect_height := h\<rparr>) = camera_target player"
  by (simp add: camera_target_def camera_target_spec_def)

section \<open>Map construction\<close>

text \<open>
  C9, as stated: construction fails whenever the grid is not rectangular. It fails for a
  grid of two rows of lengths 2 and 1: with the sprites loading, \<open>Map_init\<close> returns a map,
  of width 2.
\<close>

theorem Map_init_accepts_ragged:
  "\<not> rectangular_grid grid_ragged \<and>
   Map_init [''map1'' \<mapsto> grid_ragged] (Inr ()) ''map1''
     = Inr \<lparr>map_array = grid_ragged, height = 2, width = 2\<rparr>"
  by (simp add: rectangular_grid_def grid_ragged_def Map_init_def py_index_def)

text \<open>
  C9, amended: construction does not check that the grid is rectangular and never fails
  on account of its shape. For a named grid with at least one row, rectangular or not, it
  succeeds whenever the tile sprites load (the number of rows is the height, the length of
  the first row the width), and fails with the loading's exception otherwise.
\<close>

theorem Map_init_no_shape_check:
  assumes "MAP_COLLECTION map_name = Some (row0 # rows)"
  shows "Map_init MAP_COLLECTION (Inr tile_sprites) map_name =
           Inr \<lparr>map_array = row0 # rows, height = 1 + int (length rows),
                width = int (length row0)\<rparr> \<and>
         Map_init MAP_COLLECTION (Inl e) map_name = Inl e"
  using assms by (simp add: Map_init_def py_index_def)

theorem Map_init_no_shape_check_witness:
  "[''map1'' \<mapsto> grid_ragged] ''map1'' = Some ([GRASS, GRASS] # [[GRASS]]) \<and>
   \<not> rectangular_grid ([GRASS, GRASS] # [[GRASS]]) \<and>
   Map_init [''map1'' \<mapsto> grid_ragged] (Inr ()) ''map1'' =
     Inr \<lparr>map_array = [GRASS, GRASS] # [[GRASS]], height = 2, width = 2\<rparr> \<and>
   Map_init [''map1'' \<mapsto> grid_ragged] (Inl FileNotFoundError :: error + unit) ''map1'' =
     Inl FileNotFoundError"
proof -
  have h: "[''map1'' \<mapsto> grid_ragged] ''map1'' = Some ([GRASS, GRASS] # [[GRASS]])"
    by (simp add: grid_ragged_def)
  have n: "\<not> rectangular_grid ([GRASS, GRASS] # [[GRASS]])"
    by (simp add: rectangular_grid_def)
  from Map_init_no_shape_check
      [where MAP_COLLECTION = "[''map1'' \<mapsto> grid_ragged]" and map_name = "''map1''"
         and ?row0.0 = "[GRASS, GRASS]" and rows = "[[GRASS]]"
         and tile_sprites = "()" and e = FileNotFoundError, OF h] h n
  show ?thesis by simp
qed

section \<open>The spawn selector\<close>

lemma scan_row_append:
  "scan_row r c (xs @ ys) = scan_row r c xs @ scan_row r (c + int (length xs)) ys"
  by (induction xs arbitrary: c) (simp_all add: algebra_simps)

lemma scan_row_no_spawn: "SPAWN \<notin> set xs \<Longrightarrow> scan_row r c xs = []"
  by (induction xs arbitrary: c) auto

lemma scan_row_empty_iff: "scan_row r c xs = [] \<longleftrightarrow> SPAWN \<notin> set xs"
  by (induction xs arbitrary: c) auto

lemma scan_rows_append:
  "scan_rows r (xs @ ys) = scan_rows r xs @ scan_rows (r + int (length xs)) ys"
  by (induction xs arbitrary: r) (simp_all add: algebra_simps)

lemma scan_rows_empty_iff: "scan_rows r grid = [] \<longleftrightarrow> no_spawn grid"
  by (induction grid arbitrary: r) (auto simp: no_spawn_def scan_row_empty_iff)

lemma scan_rows_no_spawn: "no_spawn grid \<Longrightarrow> scan_rows r grid = []"
  by (simp add: scan_rows_empty_iff)

lemma scan_row_single:
  assumes "col < length row" "row ! col = SPAWN"
    "SPAWN \<notin> set (take col row)" "SPAWN \<notin> set (drop (Suc col) row)"
  shows "scan_row r 0 row = [(int col * TILE_SIZE, r * TILE_SIZE)]"
proof -
  have "row = take col row @ SPAWN # drop (Suc col) row"
    using assms(1,2) by (metis id_take_nth_drop)
  then have "scan_row r 0 row = scan_row r 0 (take col row @ SPAWN # drop (Suc col) row)"
    by simp
  also have "\<dots> = [(int col * TILE_SIZE, r * TILE_SIZE)]"
    using assms(1,3,4) by (simp add: scan_row_append scan_row_no_spawn)
  finally show ?thesis .
qed

lemma scan_rows_single:
  assumes "only_spawn_at grid col row"
  shows "scan_rows 0 grid = [(int col * TILE_SIZE, int row * TILE_SIZE)]"
proof -
  from assms have r: "row < length grid" and b: "no_spawn (take row grid)"
    and a: "no_spawn (drop (Suc row) grid)"
    and s: "scan_row (int row) 0 (grid ! row) = [(int col * TILE_SIZE, int row * TILE_SIZE)]"
    by (simp_all add: only_spawn_at_def scan_row_single)
  have "grid = take row grid @ (grid ! row) # drop (Suc row) grid"
    using r by (rule id_take_nth_drop)
  then have "scan_rows 0 grid = scan_rows 0 (take row grid @ (grid ! row) # drop (Suc row) grid)"
    by simp
  also have "\<dots> = [(int col * TILE_SIZE, int row * TILE_SIZE)]"
    using r s by (simp add: scan_rows_append scan_rows_no_spawn [OF a] scan_rows_no_spawn [OF b])
  finally show ?thesis .
qed

lemma random_choice_valid:
  assumes "valid_randbelow rb" "seq \<noteq> []"
  shows "random_choice rb seq = Inr (seq ! rb (length seq))"
proof -
  from assms have "rb (length seq) < length seq" by (simp add: valid_randbelow_def)
  then show ?thesis by (simp add: random_choice_def py_index_def)
qed

text \<open>
  C8. On a grid without spawn tiles the selector returns \<open>(0, 0)\<close> and prints the warning,
  without failing. On a grid whose only spawn tile is at column 2, row 3 it returns
  \<open>(64, 96)\<close> (the tile size is 32), whatever the generator draws. On any grid with spawn
  tiles the result is the spawn point, in row-major order, at the index the generator
  draws: the same generator gives the same choice.
\<close>

theorem spawn_selection:
  "(no_spawn (map_array m) \<longrightarrow>
      get_random_spawn_point rb m = (Inr (0, 0), [no_spawn_warning])) \<and>
   (valid_randbelow rb \<and> only_spawn_at (map_array m) 2 3 \<longrightarrow>
      get_random_spawn_point rb m = (Inr (64, 96), [])) \<and>
   (valid_randbelow rb \<and> \<not> no_spawn (map_array m) \<longrightarrow>
      get_random_spawn_point rb m =
        (Inr (spawn_points m ! rb (length (spawn_points m))), []))"
proof (intro conjI impI)
  assume "no_spawn (map_array m)"
  then have "spawn_points m = []" by (simp add: spawn_points_def scan_rows_empty_iff)
  then show "get_random_spawn_point rb m = (Inr (0, 0), [no_spawn_warning])"
    by (simp add: get_random_spawn_point_def)
next
  assume h: "valid_randbelow rb \<and> only_spawn_at (map_array m) 2 3"
  then have "spawn_points m = [(64, 96)]"
    using scan_rows_single [of "map_array m" 2 3] by (simp add: spawn_points_def TILE_SIZE_def)
  moreover from h have "rb (Suc 0) < Suc 0" unfolding valid_randbelow_def by blast
  then have "rb (Suc 0) = 0" by simp
  ultimately show "get_random_spawn_point rb m = (Inr (64, 96), [])"
    using h random_choice_valid [of rb "[(64, 96) :: int \<times> int]"]
    by (simp add: get_random_spawn_point_def)
next
  assume h: "valid_randbelow rb \<and> \<not> no_spawn (map_array m)"
  then have "spawn_points m \<noteq> []" by (simp add: spawn_points_def scan_rows_empty_iff)
  then show "get_random_spawn_point rb m =
        (Inr (spawn_points m ! rb (length (spawn_points m))), [])"
    using h by (simp add: get_random_spawn_point_def random_choice_valid Let_def)
qed

theorem spawn_selection_witness:
  "no_spawn grid_bare \<and>
   get_random_spawn_point (\<lambda>n. n - 1) map_bare = (Inr (0, 0), [no_spawn_warning]) \<and>
   valid_randbelow (\<lambda>n. n - 1) \<and> only_spawn_at grid_spawn23 2 3 \<and>
   get_random_spawn_point (\<lambda>n. n - 1) map_spawn23 = (Inr (64, 96), []) \<and>
   \<not> no_spawn grid_two \<and> spawn_points map_two = [(0, 0), (64, 0)] \<and>
   get_random_spawn_point (\<lambda>n. n - 1) map_two = (Inr (64, 0), [])"
proof -
  have v: "valid_randbelow (\<lambda>n. n - 1)" by (simp add: valid_randbelow_def)
  have b: "no_spawn grid_bare" by (simp add: no_spawn_def grid_bare_def)
  have o: "only_spawn_at grid_spawn23 2 3"
    by (simp add: only_spawn_at_def no_spawn_def grid_spawn23_def numeral_3_eq_3 numeral_2_eq_2)
  have t: "\<not> no_spawn grid_two" by (simp add: no_spawn_def grid_two_def)
  have sp: "spawn_points map_two = [(0, 0), (64, 0)]"
    by (simp add: spawn_points_def map_two_def grid_two_def TILE_SIZE_def)
  have m: "map_array map_bare = grid_bare" "map_array map_spawn23 = grid_spawn23"
    "map_array map_two = grid_two"
    by (simp_all add: map_bare_def map_spawn23_def map_two_def)
  from spawn_selection [of map_bare "\<lambda>n. n - 1"] b
  have 1: "get_random_spawn_point (\<lambda>n. n - 1) map_bare = (Inr (0, 0), [no_spawn_warning])"
    by (simp add: m)
  from spawn_selection [of map_spawn23 "\<lambda>n. n - 1"] v o
  have 2: "get_random_spawn_point (\<lambda>n. n - 1) map_spawn23 = (Inr (64, 96), [])"
    by (simp add: m)
  from spawn_selection [of map_two "\<lambda>n. n - 1"] v t
  have 3: "get_random_spawn_point (\<lambda>n. n - 1) map_two = (Inr (64, 0), [])"
    by (simp add: m sp)
  from b 1 v o 2 t sp 3 show ?thesis by blast
qed

end
